theory Spec2Isabelle
  imports Complex_Main "HOL-Library.Word"
begin

section \<open>GLFundamentals: vectors and matrices\<close>

text \<open>
  The header \<^verbatim>\<open>GLFundamentals.hpp\<close> declares \<^verbatim>\<open>vec3\<close>, \<^verbatim>\<open>vec4\<close>, \<^verbatim>\<open>mat3\<close> and
  \<^verbatim>\<open>mat4\<close> over \<^verbatim>\<open>GLfloat\<close>. Two readings of \<^verbatim>\<open>GLfloat\<close> are used, and the type of
  the components of a vector or a matrix is a parameter for that reason.

  In this section a \<^verbatim>\<open>GLfloat\<close> is a real number: the finite values of the type, with
  exact arithmetic. This reading serves the properties that are about the structure of
  the code: the default values, the product with the identity, which entries \<^verbatim>\<open>normal\<close>
  reads and which expressions it returns. Rounding, overflow, infinities and NaN are
  outside it.

  The next section reads a \<^verbatim>\<open>GLfloat\<close> as an IEEE 754 binary32 value and rounds every
  operation. It serves the properties that depend on the values computed: the angle
  conversions, the two perspective constructors and the zero test of \<^verbatim>\<open>normal\<close>.
\<close>

type_synonym GLfloat = real

text \<open>
  \<^verbatim>\<open>struct vec3 { GLfloat v[3]; ... }\<close>. The constructor \<open>vec3 x y z\<close> is the
  three-argument constructor of the source; \<open>vec3_default\<close> is \<^verbatim>\<open>vec3()\<close>.
  \<open>vec3_at\<close> is \<^verbatim>\<open>operator[]\<close>; an index outside the array is undefined behaviour in
  the source and \<open>undefined\<close> here.
\<close>

datatype 'a gvec3 = vec3 'a 'a 'a

type_synonym vec3 = "GLfloat gvec3"

definition vec3_default :: vec3 where
  "vec3_default = vec3 0 0 0"

fun vec3_at :: "'a gvec3 \<Rightarrow> nat \<Rightarrow> 'a" where
  "vec3_at (vec3 x y z) i =
     (if i = 0 then x else if i = 1 then y else if i = 2 then z else undefined)"

text \<open>\<^verbatim>\<open>struct vec4 { GLfloat v[4]; ... }\<close>.\<close>

datatype 'a gvec4 = vec4 'a 'a 'a 'a

type_synonym vec4 = "GLfloat gvec4"

definition vec4_default :: vec4 where
  "vec4_default = vec4 0 0 0 0"

fun vec4_at :: "'a gvec4 \<Rightarrow> nat \<Rightarrow> 'a" where
  "vec4_at (vec4 x y z w) i =
     (if i = 0 then x else if i = 1 then y else if i = 2 then z
      else if i = 3 then w else undefined)"

text \<open>\<^verbatim>\<open>struct mat3 { vec3 M[3]; ... }\<close>: three rows.\<close>

datatype 'a gmat3 = mat3_rows "'a gvec3" "'a gvec3" "'a gvec3"

type_synonym mat3 = "GLfloat gmat3"

definition mat3_default :: mat3 where
  "mat3_default = mat3_rows (vec3 1 0 0) (vec3 0 1 0) (vec3 0 0 1)"

definition mat3 ::
  "'a \<Rightarrow> 'a \<Rightarrow> 'a \<Rightarrow> 'a \<Rightarrow> 'a \<Rightarrow> 'a \<Rightarrow> 'a \<Rightarrow> 'a \<Rightarrow> 'a \<Rightarrow> 'a gmat3" where
  "mat3 m00 m01 m02 m10 m11 m12 m20 m21 m22 =
     mat3_rows (vec3 m00 m01 m02) (vec3 m10 m11 m12) (vec3 m20 m21 m22)"

fun mat3_at :: "'a gmat3 \<Rightarrow> nat \<Rightarrow> 'a gvec3" where
  "mat3_at (mat3_rows r0 r1 r2) i =
     (if i = 0 then r0 else if i = 1 then r1 else if i = 2 then r2 else undefined)"

text \<open>\<^verbatim>\<open>struct mat4 { vec4 M[4]; ... }\<close>: four rows.\<close>

datatype 'a gmat4 = mat4_rows "'a gvec4" "'a gvec4" "'a gvec4" "'a gvec4"

type_synonym mat4 = "GLfloat gmat4"

definition mat4_default :: mat4 where
  "mat4_default =
     mat4_rows (vec4 1 0 0 0) (vec4 0 1 0 0) (vec4 0 0 1 0) (vec4 0 0 0 1)"

definition mat4 ::
  "'a \<Rightarrow> 'a \<Rightarrow> 'a \<Rightarrow> 'a \<Rightarrow> 'a \<Rightarrow> 'a \<Rightarrow> 'a \<Rightarrow> 'a \<Rightarrow>
   'a \<Rightarrow> 'a \<Rightarrow> 'a \<Rightarrow> 'a \<Rightarrow> 'a \<Rightarrow> 'a \<Rightarrow> 'a \<Rightarrow> 'a \<Rightarrow> 'a gmat4" where
  "mat4 m00 m01 m02 m03 m10 m11 m12 m13 m20 m21 m22 m23 m30 m31 m32 m33 =
     mat4_rows (vec4 m00 m01 m02 m03) (vec4 m10 m11 m12 m13)
               (vec4 m20 m21 m22 m23) (vec4 m30 m31 m32 m33)"

fun mat4_at :: "'a gmat4 \<Rightarrow> nat \<Rightarrow> 'a gvec4" where
  "mat4_at (mat4_rows r0 r1 r2 r3) i =
     (if i = 0 then r0 else if i = 1 then r1 else if i = 2 then r2
      else if i = 3 then r3 else undefined)"

text \<open>\<open>el3 M i j\<close> and \<open>el4 M i j\<close> read the source's \<^verbatim>\<open>M[i][j]\<close>.\<close>

abbreviation el3 :: "'a gmat3 \<Rightarrow> nat \<Rightarrow> nat \<Rightarrow> 'a" where
  "el3 M i j \<equiv> vec3_at (mat3_at M i) j"

abbreviation el4 :: "'a gmat4 \<Rightarrow> nat \<Rightarrow> nat \<Rightarrow> 'a" where
  "el4 M i j \<equiv> vec4_at (mat4_at M i) j"

subsection \<open>Products\<close>

text \<open>\<^verbatim>\<open>operator*(const vec4&, const vec4&)\<close>, the 4-component dot product.\<close>

definition mul_vec4_vec4 :: "vec4 \<Rightarrow> vec4 \<Rightarrow> GLfloat" where
  "mul_vec4_vec4 v w =
     vec4_at v 0 * vec4_at w 0 + vec4_at v 1 * vec4_at w 1
       + vec4_at v 2 * vec4_at w 2 + vec4_at v 3 * vec4_at w 3"

text \<open>\<^verbatim>\<open>operator*(const mat4&, const vec4&)\<close>, the transform of \<open>v\<close> by \<open>A\<close>.\<close>

definition mul_mat4_vec4 :: "mat4 \<Rightarrow> vec4 \<Rightarrow> vec4" where
  "mul_mat4_vec4 A v =
     vec4 (mul_vec4_vec4 (mat4_at A 0) v) (mul_vec4_vec4 (mat4_at A 1) v)
          (mul_vec4_vec4 (mat4_at A 2) v) (mul_vec4_vec4 (mat4_at A 3) v)"

subsection \<open>Transform constructors\<close>

text \<open>\<^verbatim>\<open>translation(v)\<close> and \<^verbatim>\<open>scale(v)\<close>.\<close>

definition translation :: "vec3 \<Rightarrow> mat4" where
  "translation v =
     mat4 1 0 0 (vec3_at v 0)
          0 1 0 (vec3_at v 1)
          0 0 1 (vec3_at v 2)
          0 0 0 1"

definition scale :: "vec3 \<Rightarrow> mat4" where
  "scale v =
     mat4 (vec3_at v 0) 0 0 0
          0 (vec3_at v 1) 0 0
          0 0 (vec3_at v 2) 0
          0 0 0 1"

subsection \<open>The normal matrix\<close>

text \<open>
  \<^verbatim>\<open>normal(M)\<close>: the determinant \<open>d\<close> of the upper-left 3x3 block, then either the nine
  expressions of the source or \<^verbatim>\<open>mat3()\<close>.
\<close>

definition normal :: "mat4 \<Rightarrow> mat3" where
  "normal M =
     (let d = el4 M 0 0 * el4 M 1 1 * el4 M 2 2
            - el4 M 0 0 * el4 M 1 2 * el4 M 2 1
            + el4 M 0 1 * el4 M 1 2 * el4 M 2 0
            - el4 M 0 1 * el4 M 1 0 * el4 M 2 2
            + el4 M 0 2 * el4 M 1 0 * el4 M 2 1
            - el4 M 0 2 * el4 M 1 1 * el4 M 2 0
      in if \<bar>d\<bar> > 0
         then mat3 (- el4 M 1 2 * el4 M 2 1 + el4 M 1 1 * el4 M 2 2)
                   (  el4 M 1 2 * el4 M 2 0 - el4 M 1 0 * el4 M 2 2)
                   (- el4 M 1 1 * el4 M 2 0 + el4 M 1 0 * el4 M 2 1)
                   (  el4 M 0 2 * el4 M 2 1 - el4 M 0 1 * el4 M 2 2)
                   (- el4 M 0 2 * el4 M 2 0 + el4 M 0 0 * el4 M 2 2)
                   (  el4 M 0 1 * el4 M 2 0 - el4 M 0 0 * el4 M 2 1)
                   (- el4 M 0 2 * el4 M 1 1 + el4 M 0 1 * el4 M 1 2)
                   (  el4 M 0 2 * el4 M 1 0 - el4 M 0 0 * el4 M 1 2)
                   (- el4 M 0 1 * el4 M 1 0 + el4 M 0 0 * el4 M 1 1)
         else mat3_default)"

section \<open>GLfloat as an IEEE 754 binary32 value\<close>

text \<open>
  A binary32 or binary64 value is a finite real number, an infinity or a NaN. The sign
  of a zero is not modelled: a non-zero value divided by zero gives the infinity of the
  sign of the dividend. The properties below concern quotients whose divisor is not
  zero, or the same quotient on both sides. Every arithmetic operation
  computes the exact result and rounds it once to the format, to the nearest value with
  ties to the even significand, as the default rounding mode does. The operations are
  evaluated in the type the language gives them (\<^verbatim>\<open>float\<close> for two \<^verbatim>\<open>GLfloat\<close>
  operands, \<^verbatim>\<open>double\<close> when one operand is a \<^verbatim>\<open>double\<close>), one at a time: no extended
  precision and no fused multiply-add.
\<close>

subsection \<open>Rounding\<close>

text \<open>
  \<open>binade x\<close> is the exponent \<open>e\<close> with \<open>2^e \<le> |x| < 2^(e+1)\<close>. A format with \<open>p\<close>
  digits and least normal exponent \<open>emin\<close> spaces its values near \<open>x\<close> by \<open>2^q\<close>, where
  \<open>q = quantum p emin x\<close>: below \<open>2^emin\<close> the spacing stays that of the subnormal
  values. \<open>round_even y\<close> is the integer nearest to \<open>y\<close>, the even one of two equally
  near. \<open>round_to p emin x\<close> is \<open>x\<close> rounded to the format with an unbounded exponent
  range.
\<close>

definition binade :: "real \<Rightarrow> int" where
  "binade x = \<lfloor>log 2 \<bar>x\<bar>\<rfloor>"

definition quantum :: "nat \<Rightarrow> int \<Rightarrow> real \<Rightarrow> int" where
  "quantum p emin x = max (binade x) emin - (int p - 1)"

definition round_even :: "real \<Rightarrow> int" where
  "round_even y =
     (if frac y < 1 / 2 then \<lfloor>y\<rfloor>
      else if frac y > 1 / 2 then \<lceil>y\<rceil>
      else if even \<lfloor>y\<rfloor> then \<lfloor>y\<rfloor> else \<lceil>y\<rceil>)"

definition round_to :: "nat \<Rightarrow> int \<Rightarrow> real \<Rightarrow> real" where
  "round_to p emin x =
     (if x = 0 then 0
      else of_int (round_even (x / 2 powi quantum p emin x)) * 2 powi quantum p emin x)"

text \<open>
  A rounded result whose magnitude reaches \<open>2^(emax+1)\<close> overflows to an infinity.
  \<open>to_float\<close> rounds to binary32 (24 digits, exponents from \<open>-126\<close> to 127) and
  \<open>to_double\<close> to binary64 (53 digits, exponents from \<open>-1022\<close> to 1023).
  \<open>is_float x\<close> says that the real number \<open>x\<close> is a finite binary32 value.
\<close>

datatype ieee = Fin real | PInf | NInf | NaN

definition fp_round :: "nat \<Rightarrow> int \<Rightarrow> int \<Rightarrow> real \<Rightarrow> ieee" where
  "fp_round p emin emax x =
     (let r = round_to p emin x
      in if 2 powi (emax + 1) \<le> r then PInf
         else if r \<le> - (2 powi (emax + 1)) then NInf
         else Fin r)"

definition to_float :: "real \<Rightarrow> ieee" where
  "to_float x = fp_round 24 (- 126) 127 x"

definition to_double :: "real \<Rightarrow> ieee" where
  "to_double x = fp_round 53 (- 1022) 1023 x"

definition is_float :: "real \<Rightarrow> bool" where
  "is_float x \<longleftrightarrow> round_to 24 (- 126) x = x \<and> \<bar>x\<bar> < 2 ^ 128"

subsection \<open>Operations\<close>

text \<open>
  The operators of the language on floating-point operands: unary minus, \<^verbatim>\<open>fabs\<close>,
  \<^verbatim>\<open>+\<close>, \<^verbatim>\<open>-\<close>, \<^verbatim>\<open>*\<close>, \<^verbatim>\<open>/\<close> and \<^verbatim>\<open>>\<close>, with the results IEEE 754 gives
  for infinite and NaN operands and for a zero divisor. The first argument \<open>rnd\<close> is the
  rounding of the type in which the operation is evaluated.
\<close>

fun negative :: "ieee \<Rightarrow> bool" where
  "negative (Fin a) = (a < 0)"
| "negative NInf = True"
| "negative x = False"

fun fp_neg :: "ieee \<Rightarrow> ieee" where
  "fp_neg (Fin a) = Fin (- a)"
| "fp_neg PInf = NInf"
| "fp_neg NInf = PInf"
| "fp_neg NaN = NaN"

fun fp_abs :: "ieee \<Rightarrow> ieee" where
  "fp_abs (Fin a) = Fin \<bar>a\<bar>"
| "fp_abs NaN = NaN"
| "fp_abs x = PInf"

fun fp_add :: "(real \<Rightarrow> ieee) \<Rightarrow> ieee \<Rightarrow> ieee \<Rightarrow> ieee" where
  "fp_add rnd (Fin a) (Fin b) = rnd (a + b)"
| "fp_add rnd NaN b = NaN"
| "fp_add rnd a NaN = NaN"
| "fp_add rnd PInf NInf = NaN"
| "fp_add rnd NInf PInf = NaN"
| "fp_add rnd PInf b = PInf"
| "fp_add rnd a PInf = PInf"
| "fp_add rnd NInf b = NInf"
| "fp_add rnd a NInf = NInf"

definition fp_sub :: "(real \<Rightarrow> ieee) \<Rightarrow> ieee \<Rightarrow> ieee \<Rightarrow> ieee" where
  "fp_sub rnd a b = fp_add rnd a (fp_neg b)"

fun fp_mul :: "(real \<Rightarrow> ieee) \<Rightarrow> ieee \<Rightarrow> ieee \<Rightarrow> ieee" where
  "fp_mul rnd (Fin a) (Fin b) = rnd (a * b)"
| "fp_mul rnd NaN b = NaN"
| "fp_mul rnd a NaN = NaN"
| "fp_mul rnd a b =
     (if a = Fin 0 \<or> b = Fin 0 then NaN
      else if negative a = negative b then PInf else NInf)"

fun fp_div :: "(real \<Rightarrow> ieee) \<Rightarrow> ieee \<Rightarrow> ieee \<Rightarrow> ieee" where
  "fp_div rnd (Fin a) (Fin b) =
     (if b = 0 then (if a = 0 then NaN else if 0 < a then PInf else NInf)
      else rnd (a / b))"
| "fp_div rnd NaN b = NaN"
| "fp_div rnd a NaN = NaN"
| "fp_div rnd (Fin a) b = Fin 0"
| "fp_div rnd a (Fin b) = (if negative a = (b < 0) then PInf else NInf)"
| "fp_div rnd a b = NaN"

fun fp_gt :: "ieee \<Rightarrow> ieee \<Rightarrow> bool" where
  "fp_gt (Fin a) (Fin b) = (b < a)"
| "fp_gt NaN b = False"
| "fp_gt a NaN = False"
| "fp_gt PInf b = (b \<noteq> PInf)"
| "fp_gt a NInf = (a \<noteq> NInf)"
| "fp_gt a b = False"

text \<open>
  The operations on two \<^verbatim>\<open>GLfloat\<close> operands, the product of a \<^verbatim>\<open>GLfloat\<close> and a
  \<^verbatim>\<open>double\<close>, and the conversion of a \<^verbatim>\<open>double\<close> to \<^verbatim>\<open>GLfloat\<close> that an
  initialisation or a \<^verbatim>\<open>return\<close> performs. The conversion of a \<^verbatim>\<open>GLfloat\<close> to
  \<^verbatim>\<open>double\<close> is exact and is not written.
\<close>

abbreviation fadd :: "ieee \<Rightarrow> ieee \<Rightarrow> ieee" where
  "fadd \<equiv> fp_add to_float"

abbreviation fsub :: "ieee \<Rightarrow> ieee \<Rightarrow> ieee" where
  "fsub \<equiv> fp_sub to_float"

abbreviation fmul :: "ieee \<Rightarrow> ieee \<Rightarrow> ieee" where
  "fmul \<equiv> fp_mul to_float"

abbreviation fdiv :: "ieee \<Rightarrow> ieee \<Rightarrow> ieee" where
  "fdiv \<equiv> fp_div to_float"

abbreviation dmul :: "ieee \<Rightarrow> ieee \<Rightarrow> ieee" where
  "dmul \<equiv> fp_mul to_double"

fun narrow :: "ieee \<Rightarrow> ieee" where
  "narrow (Fin x) = to_float x"
| "narrow x = x"

text \<open>
  The tangent is the one of the C library, which the header calls and does not define.
  It is a parameter \<open>tan_lib\<close>, the value the library returns at a finite argument;
  nothing is assumed of it.
\<close>

fun fp_tan :: "(real \<Rightarrow> real) \<Rightarrow> ieee \<Rightarrow> ieee" where
  "fp_tan tan_lib (Fin q) = Fin (tan_lib q)"
| "fp_tan tan_lib x = NaN"

subsection \<open>Angle conversion\<close>

text \<open>
  \<^verbatim>\<open>return degrees * 0.01745329;\<close> and \<^verbatim>\<open>return radians * 57.2957795;\<close>
  The literals are \<^verbatim>\<open>double\<close> constants, the products are \<^verbatim>\<open>double\<close> products, and
  the \<^verbatim>\<open>return\<close> converts them to \<^verbatim>\<open>GLfloat\<close>.
\<close>

definition to_radians :: "ieee \<Rightarrow> ieee" where
  "to_radians degrees = narrow (dmul degrees (to_double 0.01745329))"

definition to_degrees :: "ieee \<Rightarrow> ieee" where
  "to_degrees radians = narrow (dmul radians (to_double 57.2957795))"

subsection \<open>Projection constructors\<close>

text \<open>
  \<^verbatim>\<open>perspective(v, a, n, f)\<close>: field of view \<open>v\<close>, aspect ratio \<open>a\<close>, near and far
  distances. \<^verbatim>\<open>v / 2\<close> is a \<^verbatim>\<open>GLfloat\<close> quotient; the product of \<open>n\<close> and the tangent is
  a \<^verbatim>\<open>double\<close> product, converted to \<^verbatim>\<open>GLfloat\<close> by the initialisation of \<^verbatim>\<open>y\<close>.
  The sixteen arguments of \<^verbatim>\<open>mat4(...)\<close> are in the order of the source, which lays
  them out across lines differently from the rows they fill.
\<close>

definition perspective4 ::
  "(real \<Rightarrow> real) \<Rightarrow> ieee \<Rightarrow> ieee \<Rightarrow> ieee \<Rightarrow> ieee \<Rightarrow> ieee gmat4" where
  "perspective4 tan_lib v a n f =
     (let y = narrow (dmul n (fp_tan tan_lib (fdiv v (Fin 2))));
          x = fmul y a
      in mat4 (fdiv n x) (Fin 0) (Fin 0) (Fin 0) (Fin 0)
              (fdiv n y) (Fin 0) (Fin 0) (Fin 0) (Fin 0) (fdiv (fadd n f) (fsub n f))
                             (fdiv (fmul (Fin 2) (fmul n f)) (fsub n f)) (Fin 0) (Fin 0) (Fin (- 1)) (Fin 0))"

text \<open>\<^verbatim>\<open>perspective(l, r, b, t, n, f)\<close>: the frustum given by its clipping boundaries.\<close>

definition perspective6 ::
  "ieee \<Rightarrow> ieee \<Rightarrow> ieee \<Rightarrow> ieee \<Rightarrow> ieee \<Rightarrow> ieee \<Rightarrow> ieee gmat4" where
  "perspective6 l r b t n f =
     mat4 (fdiv (fadd n n) (fsub r l)) (Fin 0)
          (fdiv (fadd r l) (fsub r l)) (Fin 0) (Fin 0)
          (fdiv (fadd n n) (fsub t b))
          (fdiv (fadd t b) (fsub t b)) (Fin 0) (Fin 0) (Fin 0)
          (fdiv (fadd n f) (fsub n f))
          (fdiv (fmul (Fin 2) (fmul n f)) (fsub n f)) (Fin 0) (Fin 0) (Fin (- 1)) (Fin 0)"

subsection \<open>The normal matrix, rounded\<close>

text \<open>
  \<^verbatim>\<open>normal(M)\<close> with every product and sum rounded to \<^verbatim>\<open>GLfloat\<close>, in the order the
  language evaluates them: \<open>normal_d M\<close> is the value of \<^verbatim>\<open>d\<close>, six products of three
  entries combined from left to right. The test is \<^verbatim>\<open>fabs(d) > 0.f\<close>, false for a zero
  and for a NaN. The last matrix is the value of \<^verbatim>\<open>mat3()\<close>.
\<close>

definition normal_d :: "ieee gmat4 \<Rightarrow> ieee" where
  "normal_d M =
     fsub (fadd (fsub (fadd (fsub (fmul (fmul (el4 M 0 0) (el4 M 1 1)) (el4 M 2 2))
                                  (fmul (fmul (el4 M 0 0) (el4 M 1 2)) (el4 M 2 1)))
                            (fmul (fmul (el4 M 0 1) (el4 M 1 2)) (el4 M 2 0)))
                      (fmul (fmul (el4 M 0 1) (el4 M 1 0)) (el4 M 2 2)))
                (fmul (fmul (el4 M 0 2) (el4 M 1 0)) (el4 M 2 1)))
          (fmul (fmul (el4 M 0 2) (el4 M 1 1)) (el4 M 2 0))"

definition normal_binary32 :: "ieee gmat4 \<Rightarrow> ieee gmat3" where
  "normal_binary32 M =
     (let d = normal_d M
      in if fp_gt (fp_abs d) (Fin 0)
         then mat3 (fadd (fmul (fp_neg (el4 M 1 2)) (el4 M 2 1)) (fmul (el4 M 1 1) (el4 M 2 2)))
                   (fsub (fmul (el4 M 1 2) (el4 M 2 0)) (fmul (el4 M 1 0) (el4 M 2 2)))
                   (fadd (fmul (fp_neg (el4 M 1 1)) (el4 M 2 0)) (fmul (el4 M 1 0) (el4 M 2 1)))
                   (fsub (fmul (el4 M 0 2) (el4 M 2 1)) (fmul (el4 M 0 1) (el4 M 2 2)))
                   (fadd (fmul (fp_neg (el4 M 0 2)) (el4 M 2 0)) (fmul (el4 M 0 0) (el4 M 2 2)))
                   (fsub (fmul (el4 M 0 1) (el4 M 2 0)) (fmul (el4 M 0 0) (el4 M 2 1)))
                   (fadd (fmul (fp_neg (el4 M 0 2)) (el4 M 1 1)) (fmul (el4 M 0 1) (el4 M 1 2)))
                   (fsub (fmul (el4 M 0 2) (el4 M 1 0)) (fmul (el4 M 0 0) (el4 M 1 2)))
                   (fadd (fmul (fp_neg (el4 M 0 1)) (el4 M 1 0)) (fmul (el4 M 0 0) (el4 M 1 1)))
         else mat3 (Fin 1) (Fin 0) (Fin 0) (Fin 0) (Fin 1) (Fin 0) (Fin 0) (Fin 0) (Fin 1))"

section \<open>The shader build pipeline\<close>

text \<open>
  The pipeline talks to the C library (files, the allocator, the error stream) and to the
  OpenGL driver. Both are outside the header, so their answers are parameters: an
  environment \<open>env\<close> gives the result of every call as a function of the history of
  calls made so far and of the call's arguments. The history is the state the functions
  pass along: each call appends one event, which records the arguments and the answer.
  Nothing is assumed of the environment; a driver or a file system whose answers change
  from one call to the next is one of its instances.
\<close>

type_synonym GLuint = "32 word"

text \<open>
  A \<^verbatim>\<open>GLint\<close> (a status flag, the length of an info log) is a 32-bit signed integer:
  a 32-bit word whose value is read by \<open>sint\<close>. The sizes passed to \<^verbatim>\<open>calloc\<close> and
  \<^verbatim>\<open>fread\<close> are \<^verbatim>\<open>size_t\<close>, a 64-bit word read by \<open>uint\<close> (the width of a 64-bit
  platform).
\<close>

type_synonym GLint = "32 word"

type_synonym size_t = "64 word"

datatype shader_type = GL_VERTEX_SHADER | GL_FRAGMENT_SHADER

datatype pname = GL_COMPILE_STATUS | GL_LINK_STATUS | GL_INFO_LOG_LENGTH

text \<open>
  A buffer pointer is \<open>None\<close> for the null pointer and \<open>Some bytes\<close> otherwise.
  \<open>Fprintf\<close> is a write to the error stream: \<^verbatim>\<open>report_shader_status\<close> and
  \<^verbatim>\<open>report_program_status\<close> take the stream as a parameter whose default is
  \<^verbatim>\<open>stderr\<close>, and every caller in the header uses the default.
\<close>

datatype event =
    Fopen string bool
  | Fseek_end string bool
  | Ftell string int
  | Fseek_set string bool
  | Calloc size_t bool
  | Fread string size_t
  | Fclose string
  | Fprintf string
  | Free "string option"
  | GlCreateShader shader_type GLuint
  | GlShaderSource GLuint string
  | GlCompileShader GLuint
  | GlGetShaderiv GLuint pname GLint
  | GlGetShaderInfoLog GLuint GLint string
  | GlDeleteShader GLuint
  | GlCreateProgram GLuint
  | GlAttachShader GLuint GLuint
  | GlLinkProgram GLuint
  | GlGetProgramiv GLuint pname GLint
  | GlGetProgramInfoLog GLuint GLint string
  | GlDeleteProgram GLuint

record env =
  fopen_ret :: "event list \<Rightarrow> string \<Rightarrow> bool"
  fseek_ret :: "event list \<Rightarrow> string \<Rightarrow> bool"
  ftell_ret :: "event list \<Rightarrow> string \<Rightarrow> int"
  calloc_ret :: "event list \<Rightarrow> size_t \<Rightarrow> bool"
  fread_ret :: "event list \<Rightarrow> string \<Rightarrow> string"
  glCreateShader_ret :: "event list \<Rightarrow> shader_type \<Rightarrow> GLuint"
  glGetShaderiv_ret :: "event list \<Rightarrow> GLuint \<Rightarrow> pname \<Rightarrow> GLint"
  glGetShaderInfoLog_ret :: "event list \<Rightarrow> GLuint \<Rightarrow> GLint \<Rightarrow> string"
  glCreateProgram_ret :: "event list \<Rightarrow> GLuint"
  glGetProgramiv_ret :: "event list \<Rightarrow> GLuint \<Rightarrow> pname \<Rightarrow> GLint"
  glGetProgramInfoLog_ret :: "event list \<Rightarrow> GLuint \<Rightarrow> GLint \<Rightarrow> string"

subsection \<open>Loading a source file\<close>

text \<open>
  \<^verbatim>\<open>read_shader_source(name)\<close>. \<open>fopen_ret\<close> says whether \<^verbatim>\<open>fopen\<close> returned a
  stream, \<open>fseek_ret\<close> whether \<^verbatim>\<open>fseek\<close> returned 0, \<open>ftell_ret\<close> is the \<^verbatim>\<open>long\<close> that
  \<^verbatim>\<open>ftell\<close> returned and \<open>calloc_ret\<close> whether \<^verbatim>\<open>calloc\<close> returned a buffer.
  \<open>n\<close> is the \<^verbatim>\<open>size_t\<close> cast of the position, so that the error value \<open>-1\<close> of
  \<^verbatim>\<open>ftell\<close> is a non-zero \<open>n\<close> as in the source. The buffer holds \<open>n + 1\<close> zero
  bytes, over which \<^verbatim>\<open>fread\<close> stores the bytes it read, at most \<open>n\<close>.
  When \<open>n + 1\<close> wraps to 0 (a position of \<open>-1\<close>) the source reads into a buffer of no
  bytes, which is undefined behaviour; \<open>source_buffer\<close> is then just the bytes read.
  \<open>failed_to_open\<close> is the format \<^verbatim>\<open>"Failed to open '%s'.\n"\<close> applied to the name.
\<close>

definition failed_to_open :: "string \<Rightarrow> string" where
  "failed_to_open name =
     ''Failed to open '' @ [CHR 0x27] @ name @ [CHR 0x27] @ ''.'' @ [CHR 0x0A]"

definition source_buffer :: "size_t \<Rightarrow> string \<Rightarrow> string" where
  "source_buffer n bytes =
     take (unat n) bytes @ replicate (unat (n + 1) - length (take (unat n) bytes)) (CHR 0x00)"

definition read_shader_source :: "env \<Rightarrow> string \<Rightarrow> event list \<Rightarrow> string option \<times> event list" where
  "read_shader_source env name h0 =
     (let opened = fopen_ret env h0 name;
          h1 = h0 @ [Fopen name opened]
      in if opened then
           (let (p, h6) =
                  (let at_end = fseek_ret env h1 name;
                       h2 = h1 @ [Fseek_end name at_end]
                   in if at_end then
                        (let pos = ftell_ret env h2 name;
                             n = (word_of_int pos :: size_t);
                             h3 = h2 @ [Ftell name pos]
                         in if n \<noteq> 0 then
                              (let at_start = fseek_ret env h3 name;
                                   h4 = h3 @ [Fseek_set name at_start]
                               in if at_start then
                                    (let got = calloc_ret env h4 (n + 1);
                                         h5 = h4 @ [Calloc (n + 1) got]
                                     in if got then
                                          (Some (source_buffer n (fread_ret env h5 name)),
                                           h5 @ [Fread name n])
                                        else (None, h5))
                                  else (None, h4))
                            else (None, h3))
                      else (None, h2))
            in (p, h6 @ [Fclose name]))
         else (None, h1 @ [Fprintf (failed_to_open name)]))"

subsection \<open>Status reports\<close>

text \<open>
  \<^verbatim>\<open>report_shader_status(shader)\<close>: two queries, then on a zero status the log buffer,
  the log, the print and the release, each guarded as in the source.
  The size of the buffer is \<^verbatim>\<open>n + 1\<close>, a sum of two \<^verbatim>\<open>GLint\<close> converted to
  \<^verbatim>\<open>size_t\<close>: the 32-bit sum, sign-extended to 64 bits by \<open>scast\<close>. For a length
  from 0 to \<open>2^31 - 2\<close> that is \<open>n + 1\<close> bytes. At the length \<open>2^31 - 1\<close> the signed sum
  overflows, which the language leaves undefined; the sum is taken to wrap, as the
  two's-complement hardware does, and the request is then \<open>2^64 - 2^31\<close> bytes. A
  negative length \<open>n\<close> requests \<open>2^64 + n + 1\<close> bytes, or none at \<open>n = -1\<close>.
\<close>

definition report_shader_status :: "env \<Rightarrow> GLuint \<Rightarrow> event list \<Rightarrow> bool \<times> event list" where
  "report_shader_status env shader h0 =
     (let s = glGetShaderiv_ret env h0 shader GL_COMPILE_STATUS;
          h1 = h0 @ [GlGetShaderiv shader GL_COMPILE_STATUS s];
          n = glGetShaderiv_ret env h1 shader GL_INFO_LOG_LENGTH;
          h2 = h1 @ [GlGetShaderiv shader GL_INFO_LOG_LENGTH n]
      in if s = 0 then
           (let got = calloc_ret env h2 (scast (n + 1));
                h3 = h2 @ [Calloc (scast (n + 1)) got]
            in if got then
                 (let p = glGetShaderInfoLog_ret env h3 shader n;
                      h4 = h3 @ [GlGetShaderInfoLog shader n p];
                      h5 = h4 @ [Fprintf (''Shader Error:'' @ [CHR 0x0A] @ p)]
                  in (False, h5 @ [Free (Some p)]))
               else (False, h3))
         else (True, h2))"

text \<open>\<^verbatim>\<open>report_program_status(program)\<close>.\<close>

definition report_program_status :: "env \<Rightarrow> GLuint \<Rightarrow> event list \<Rightarrow> bool \<times> event list" where
  "report_program_status env program h0 =
     (let s = glGetProgramiv_ret env h0 program GL_LINK_STATUS;
          h1 = h0 @ [GlGetProgramiv program GL_LINK_STATUS s];
          n = glGetProgramiv_ret env h1 program GL_INFO_LOG_LENGTH;
          h2 = h1 @ [GlGetProgramiv program GL_INFO_LOG_LENGTH n]
      in if s = 0 then
           (let got = calloc_ret env h2 (scast (n + 1));
                h3 = h2 @ [Calloc (scast (n + 1)) got]
            in if got then
                 (let p = glGetProgramInfoLog_ret env h3 program n;
                      h4 = h3 @ [GlGetProgramInfoLog program n p];
                      h5 = h4 @ [Fprintf (''Program Error:'' @ [CHR 0x0A] @ p)]
                  in (False, h5 @ [Free (Some p)]))
               else (False, h3))
         else (True, h2))"

subsection \<open>Compiling and linking\<close>

text \<open>\<^verbatim>\<open>init_shader(type, source)\<close>.\<close>

definition init_shader :: "env \<Rightarrow> shader_type \<Rightarrow> string \<Rightarrow> event list \<Rightarrow> GLuint \<times> event list" where
  "init_shader env type source h0 =
     (let shader = glCreateShader_ret env h0 type;
          h1 = h0 @ [GlCreateShader type shader]
      in if shader \<noteq> 0 then
           (let h2 = h1 @ [GlShaderSource shader source];
                h3 = h2 @ [GlCompileShader shader];
                (status, h4) = report_shader_status env shader h3
            in if status then (shader, h4)
               else (0, h4 @ [GlDeleteShader shader]))
         else (0, h1))"

text \<open>\<^verbatim>\<open>init_program(GLuint vert_shader, GLuint frag_shader)\<close>.\<close>

definition init_program_shaders :: "env \<Rightarrow> GLuint \<Rightarrow> GLuint \<Rightarrow> event list \<Rightarrow> GLuint \<times> event list" where
  "init_program_shaders env vert_shader frag_shader h0 =
     (let program = glCreateProgram_ret env h0;
          h1 = h0 @ [GlCreateProgram program]
      in if program \<noteq> 0 then
           (let h2 = h1 @ [GlAttachShader program vert_shader];
                h3 = h2 @ [GlAttachShader program frag_shader];
                h4 = h3 @ [GlLinkProgram program];
                (status, h5) = report_program_status env program h4
            in if status then (program, h5)
               else (0, h5 @ [GlDeleteProgram program]))
         else (0, h1))"

text \<open>
  \<^verbatim>\<open>init_program(const char *vert_name, const char *frag_name)\<close>, the entry point that
  builds a program from two source files.
\<close>

definition init_program_files :: "env \<Rightarrow> string \<Rightarrow> string \<Rightarrow> event list \<Rightarrow> GLuint \<times> event list" where
  "init_program_files env vert_name frag_name h0 =
     (let (vert_source, h1) = read_shader_source env vert_name h0;
          (frag_source, h2) = read_shader_source env frag_name h1;
          (program, h7) =
            (case (vert_source, frag_source) of
               (Some vert_text, Some frag_text) \<Rightarrow>
                 (let (vert_shader, h3) = init_shader env GL_VERTEX_SHADER vert_text h2;
                      (frag_shader, h4) = init_shader env GL_FRAGMENT_SHADER frag_text h3;
                      (program, h5) =
                        (if vert_shader \<noteq> 0 \<and> frag_shader \<noteq> 0
                         then init_program_shaders env vert_shader frag_shader h4
                         else (0, h4));
                      h6 = h5 @ [GlDeleteShader frag_shader]
                  in (program, h6 @ [GlDeleteShader vert_shader]))
             | _ \<Rightarrow> (0, h2))
      in (program, h7 @ [Free frag_source, Free vert_source]))"

section \<open>Reference definitions\<close>

subsection \<open>The inverse transpose of the upper-left block\<close>

text \<open>
  These three definitions are not code of the header. They follow the words of the
  specification of \<^verbatim>\<open>normal\<close> (the transpose of the inverse of the upper-left 3x3 block,
  by cofactors over the determinant) and are what \<open>normal\<close> is compared with.
  \<open>spec_cofactor3 M i j\<close> is the cofactor of entry \<open>(i, j)\<close> of the block: the signed minor
  left by deleting row \<open>i\<close> and column \<open>j\<close>, written with cyclic indices.
  \<open>spec_det3\<close> is the expansion of the determinant along the first row.
\<close>

definition spec_cofactor3 :: "mat4 \<Rightarrow> nat \<Rightarrow> nat \<Rightarrow> GLfloat" where
  "spec_cofactor3 M i j =
     el4 M ((i + 1) mod 3) ((j + 1) mod 3) * el4 M ((i + 2) mod 3) ((j + 2) mod 3)
   - el4 M ((i + 1) mod 3) ((j + 2) mod 3) * el4 M ((i + 2) mod 3) ((j + 1) mod 3)"

definition spec_det3 :: "mat4 \<Rightarrow> GLfloat" where
  "spec_det3 M =
     el4 M 0 0 * spec_cofactor3 M 0 0 + el4 M 0 1 * spec_cofactor3 M 0 1
       + el4 M 0 2 * spec_cofactor3 M 0 2"

definition spec_inverse_transpose3 :: "mat4 \<Rightarrow> mat3" where
  "spec_inverse_transpose3 M =
     mat3 (spec_cofactor3 M 0 0 / spec_det3 M) (spec_cofactor3 M 0 1 / spec_det3 M)
          (spec_cofactor3 M 0 2 / spec_det3 M)
          (spec_cofactor3 M 1 0 / spec_det3 M) (spec_cofactor3 M 1 1 / spec_det3 M)
          (spec_cofactor3 M 1 2 / spec_det3 M)
          (spec_cofactor3 M 2 0 / spec_det3 M) (spec_cofactor3 M 2 1 / spec_det3 M)
          (spec_cofactor3 M 2 2 / spec_det3 M)"

subsection \<open>Observations on a history\<close>

text \<open>\<open>emitted h h'\<close> is what a run that started at history \<open>h\<close> and ended at \<open>h'\<close> appended.\<close>

definition emitted :: "event list \<Rightarrow> event list \<Rightarrow> event list" where
  "emitted h h' = drop (length h) h'"

fun is_print :: "event \<Rightarrow> bool" where
  "is_print (Fprintf msg) = True"
| "is_print e = False"

fun creates_shader :: "event \<Rightarrow> bool" where
  "creates_shader (GlCreateShader ty shader) = True"
| "creates_shader e = False"

fun compiles_shader :: "event \<Rightarrow> bool" where
  "compiles_shader (GlCompileShader shader) = True"
| "compiles_shader e = False"

fun creates_program :: "event \<Rightarrow> bool" where
  "creates_program (GlCreateProgram program) = True"
| "creates_program e = False"

fun links_program :: "event \<Rightarrow> bool" where
  "links_program (GlLinkProgram program) = True"
| "links_program e = False"

subsection \<open>Example environments\<close>

text \<open>
  \<open>env_ok\<close>: every file opens and holds the four bytes \<open>main\<close>, every allocation
  succeeds, the driver hands out the handles 1, 2 and 3 and reports success.
  The others change one answer each: the driver reports a failed compilation and a
  failed link with the log \<open>error\<close>; on top of that no allocation succeeds; on top of a
  failed compilation no file opens; every file is empty; no shader object can be created;
  both stages compile and the link fails with the log \<open>error\<close>; the vertex stage
  compiles and the fragment stage does not; the fragment file does not open; a failed
  compilation and a failed link have a log of length \<open>2^31 - 1\<close> that cannot be allocated.
\<close>

definition env_ok :: env where
  "env_ok = \<lparr>
     fopen_ret = (\<lambda>h name. True),
     fseek_ret = (\<lambda>h name. True),
     ftell_ret = (\<lambda>h name. 4),
     calloc_ret = (\<lambda>h k. True),
     fread_ret = (\<lambda>h name. ''main''),
     glCreateShader_ret = (\<lambda>h ty. case ty of GL_VERTEX_SHADER \<Rightarrow> 1 | GL_FRAGMENT_SHADER \<Rightarrow> 2),
     glGetShaderiv_ret = (\<lambda>h shader pn. case pn of GL_INFO_LOG_LENGTH \<Rightarrow> 0 | _ \<Rightarrow> 1),
     glGetShaderInfoLog_ret = (\<lambda>h shader n. []),
     glCreateProgram_ret = (\<lambda>h. 3),
     glGetProgramiv_ret = (\<lambda>h program pn. case pn of GL_INFO_LOG_LENGTH \<Rightarrow> 0 | _ \<Rightarrow> 1),
     glGetProgramInfoLog_ret = (\<lambda>h program n. []) \<rparr>"

definition env_compile_error :: env where
  "env_compile_error = env_ok \<lparr>
     glGetShaderiv_ret := (\<lambda>h shader pn. case pn of GL_INFO_LOG_LENGTH \<Rightarrow> 6 | _ \<Rightarrow> 0),
     glGetShaderInfoLog_ret := (\<lambda>h shader n. ''error''),
     glGetProgramiv_ret := (\<lambda>h program pn. case pn of GL_INFO_LOG_LENGTH \<Rightarrow> 6 | _ \<Rightarrow> 0),
     glGetProgramInfoLog_ret := (\<lambda>h program n. ''error'') \<rparr>"

definition env_no_memory :: env where
  "env_no_memory = env_compile_error \<lparr> calloc_ret := (\<lambda>h k. False) \<rparr>"

definition env_no_file :: env where
  "env_no_file = env_compile_error \<lparr> fopen_ret := (\<lambda>h name. False) \<rparr>"

definition env_empty_file :: env where
  "env_empty_file = env_ok \<lparr> ftell_ret := (\<lambda>h name. 0) \<rparr>"

definition env_no_shader :: env where
  "env_no_shader = env_ok \<lparr> glCreateShader_ret := (\<lambda>h ty. 0) \<rparr>"

definition env_link_error :: env where
  "env_link_error = env_ok \<lparr>
     glGetProgramiv_ret := (\<lambda>h program pn. case pn of GL_INFO_LOG_LENGTH \<Rightarrow> 6 | _ \<Rightarrow> 0),
     glGetProgramInfoLog_ret := (\<lambda>h program n. ''error'') \<rparr>"

definition env_frag_error :: env where
  "env_frag_error = env_ok \<lparr>
     glGetShaderiv_ret := (\<lambda>h shader pn. case pn of GL_INFO_LOG_LENGTH \<Rightarrow> 6
                                          | _ \<Rightarrow> if shader = 2 then 0 else 1),
     glGetShaderInfoLog_ret := (\<lambda>h shader n. ''error'') \<rparr>"

definition env_no_frag_file :: env where
  "env_no_frag_file = env_ok \<lparr> fopen_ret := (\<lambda>h name. name \<noteq> ''a.frag'') \<rparr>"

definition env_long_log :: env where
  "env_long_log = env_no_memory \<lparr>
     glGetShaderiv_ret := (\<lambda>h shader pn. case pn of GL_INFO_LOG_LENGTH \<Rightarrow> 0x7FFFFFFF | _ \<Rightarrow> 0),
     glGetProgramiv_ret := (\<lambda>h program pn. case pn of GL_INFO_LOG_LENGTH \<Rightarrow> 0x7FFFFFFF | _ \<Rightarrow> 0) \<rparr>"

subsection \<open>A sample tangent\<close>

text \<open>
  A library tangent for the examples: at the argument 1/2 it returns
  0.5463024898437905, the tangent of 1/2 to sixteen digits.
\<close>

definition tan_sample :: "real \<Rightarrow> real" where
  "tan_sample q = (if q = 1 / 2 then 0.5463024898437905 else 0)"

section \<open>Properties of the algebra\<close>

subsection \<open>What \<open>normal\<close> computes\<close>

text \<open>
  The determinant of the source is the reference determinant, and the nine entries the
  source returns are the nine cofactors. They are not divided by the determinant.
\<close>

lemma normal_is_cofactor_matrix:
  "normal M =
     (if spec_det3 M \<noteq> 0
      then mat3 (spec_cofactor3 M 0 0) (spec_cofactor3 M 0 1) (spec_cofactor3 M 0 2)
                (spec_cofactor3 M 1 0) (spec_cofactor3 M 1 1) (spec_cofactor3 M 1 2)
                (spec_cofactor3 M 2 0) (spec_cofactor3 M 2 1) (spec_cofactor3 M 2 2)
      else mat3_default)"
proof -
  obtain r0 r1 r2 r3 where M: "M = mat4_rows r0 r1 r2 r3" by (cases M) auto
  obtain a0 a1 a2 a3 where r0: "r0 = vec4 a0 a1 a2 a3" by (cases r0) auto
  obtain b0 b1 b2 b3 where r1: "r1 = vec4 b0 b1 b2 b3" by (cases r1) auto
  obtain c0 c1 c2 c3 where r2: "r2 = vec4 c0 c1 c2 c3" by (cases r2) auto
  have d: "a0 * b1 * c2 - a0 * b2 * c1 + a1 * b2 * c0 - a1 * b0 * c2 + a2 * b0 * c1 - a2 * b1 * c0
     = a0 * (b1 * c2 - b2 * c1) + a1 * (b2 * c0 - b0 * c2) + a2 * (b0 * c1 - b1 * c0)"
    by (simp add: algebra_simps)
  show ?thesis
    unfolding normal_def Let_def spec_det3_def spec_cofactor3_def M r0 r1 r2
    by (simp add: d, simp add: mult.commute)
qed

text \<open>
  The reference definition is the inverse transpose: the block times the transpose of
  \<open>spec_inverse_transpose3 M\<close> is the identity, entry by entry.
\<close>

lemma spec_inverse_transpose3_inverts:
  assumes "spec_det3 M \<noteq> 0"
  shows "list_all (\<lambda>i. list_all (\<lambda>j.
           el4 M i 0 * el3 (spec_inverse_transpose3 M) j 0
         + el4 M i 1 * el3 (spec_inverse_transpose3 M) j 1
         + el4 M i 2 * el3 (spec_inverse_transpose3 M) j 2 = (if i = j then 1 else 0))
         [0, 1, 2]) [0, 1, 2]"
proof -
  obtain r0 r1 r2 r3 where M: "M = mat4_rows r0 r1 r2 r3" by (cases M) auto
  obtain a0 a1 a2 a3 where r0: "r0 = vec4 a0 a1 a2 a3" by (cases r0) auto
  obtain b0 b1 b2 b3 where r1: "r1 = vec4 b0 b1 b2 b3" by (cases r1) auto
  obtain c0 c1 c2 c3 where r2: "r2 = vec4 c0 c1 c2 c3" by (cases r2) auto
  have D: "a0 * (b1 * c2 - b2 * c1) + a1 * (b2 * c0 - b0 * c2) + a2 * (b0 * c1 - b1 * c0) \<noteq> 0"
    using assms by (simp add: M r0 r1 r2 spec_det3_def spec_cofactor3_def)
  show ?thesis
    using D
    apply (simp add: M r0 r1 r2 spec_inverse_transpose3_def mat3_def spec_det3_def
        spec_cofactor3_def)
    apply (simp add: add_divide_distrib [symmetric] diff_divide_distrib [symmetric] divide_simps)
    apply (intro conjI; (simp add: algebra_simps)?)
    done
qed

text \<open>
  Claim C1: for every 4x4 matrix \<open>M\<close> whose upper-left block has a non-zero determinant,
  \<open>normal M\<close> is the transpose of the inverse of that block, each entry being the
  cofactor divided by the determinant. The source does not do this: at the scale matrix
  with factors 2, 2, 2, whose block has determinant 8, it returns the cofactors 4 on the
  diagonal, where the inverse transpose has 1/2. The header's own comment on \<^verbatim>\<open>normal\<close>
  promises the transposed inverse.
\<close>

theorem normal_of_scale_2_is_unscaled:
  "spec_det3 (scale (vec3 2 2 2)) = 8
   \<and> normal (scale (vec3 2 2 2)) = mat3 4 0 0 0 4 0 0 0 4
   \<and> spec_inverse_transpose3 (scale (vec3 2 2 2)) = mat3 (1 / 2) 0 0 0 (1 / 2) 0 0 0 (1 / 2)
   \<and> normal (scale (vec3 2 2 2)) \<noteq> spec_inverse_transpose3 (scale (vec3 2 2 2))"
  by (simp add: normal_def scale_def mat4_def mat3_def Let_def spec_det3_def spec_cofactor3_def
        spec_inverse_transpose3_def)

text \<open>
  Claim C9: \<open>normal M\<close> depends only on the upper-left 3x3 block of \<open>M\<close>. Two matrices
  that agree on the entries \<open>[i][j]\<close> for \<open>i, j\<close> in \<open>{0, 1, 2}\<close> have the same normal
  matrix; the translation column and the bottom row have no influence.
\<close>

theorem normal_depends_on_upper_block:
  "list_all (\<lambda>i. list_all (\<lambda>j. el4 M i j = el4 N i j) [0, 1, 2]) [0, 1, 2]
   \<Longrightarrow> normal M = normal N"
  by (simp add: normal_def)

theorem normal_depends_on_upper_block_witness:
  "list_all (\<lambda>i. list_all (\<lambda>j.
      el4 mat4_default i j = el4 (translation (vec3 5 6 7)) i j) [0, 1, 2]) [0, 1, 2]
   \<and> mat4_default \<noteq> translation (vec3 5 6 7)
   \<and> normal mat4_default = normal (translation (vec3 5 6 7))"
  using normal_depends_on_upper_block [of mat4_default "translation (vec3 5 6 7)"]
  by (simp add: mat4_default_def translation_def mat4_def)

subsection \<open>Default values\<close>

text \<open>
  Claim C6: the default-constructed \<open>mat4\<close> is the identity matrix (entry \<open>[i][j]\<close> is 1
  when \<open>i = j\<close> and 0 otherwise), and its product with any 4-component vector \<open>v\<close>,
  under the row-by-column product of the source, is \<open>v\<close>.
\<close>

theorem mat4_default_is_identity:
  "list_all (\<lambda>i. list_all (\<lambda>j. el4 mat4_default i j = (if i = j then 1 else 0))
     [0, 1, 2, 3]) [0, 1, 2, 3]
   \<and> mul_mat4_vec4 mat4_default v = v"
  by (cases v) (simp add: mat4_default_def mul_mat4_vec4_def mul_vec4_vec4_def)

text \<open>
  Claim C10: the default-constructed \<open>vec3\<close> and \<open>vec4\<close> are the zero vectors: every
  component is 0.
\<close>

theorem default_vectors_are_zero:
  "vec3_default = vec3 0 0 0 \<and> vec4_default = vec4 0 0 0 0
   \<and> vec3_at vec3_default 0 = 0 \<and> vec3_at vec3_default 1 = 0 \<and> vec3_at vec3_default 2 = 0
   \<and> vec4_at vec4_default 0 = 0 \<and> vec4_at vec4_default 1 = 0 \<and> vec4_at vec4_default 2 = 0
   \<and> vec4_at vec4_default 3 = 0"
  by (simp add: vec3_default_def vec4_default_def)

section \<open>Properties of the rounding\<close>

text \<open>
  How \<open>round_to\<close> is computed (\<open>round_to_eval\<close>, from the binade of the argument),
  which values it leaves unchanged (\<open>round_to_dyadic\<close>: an integer of fewer than \<open>p\<close>
  digits times a power of two that is not below the subnormal spacing), that rounding a
  rounded value changes nothing, that a value below half the least subnormal rounds to
  zero, and the relative error \<open>2^-p\<close> of rounding in the normal range.
\<close>

lemma powr_powi: "(2::real) powr (real_of_int k) = 2 powi k"
  by (simp add: powr_real_of_int')

lemma powr_powi1: "(2::real) powr (real_of_int k + 1) = 2 powi (k + 1)"
  using powr_powi [of "k + 1"] by simp

lemma binade_eq:
  assumes "2 powi k \<le> \<bar>x\<bar>" and "\<bar>x\<bar> < 2 powi (k + 1)"
  shows "binade x = k"
proof -
  have "(0::real) < 2 powi k"
    by simp
  with assms(1) have pos: "0 < \<bar>x\<bar>"
    by linarith
  have "(2::real) powr (of_int k) \<le> \<bar>x\<bar> \<and> \<bar>x\<bar> < 2 powr (of_int (k + 1))"
    using assms by (simp add: powr_powi powr_powi1)
  then show ?thesis
    unfolding binade_def using floor_log_eq_powr_iff [of "\<bar>x\<bar>" 2 k] pos by simp
qed

lemma binade_bounds:
  assumes "x \<noteq> 0"
  shows "2 powi binade x \<le> \<bar>x\<bar>" and "\<bar>x\<bar> < 2 powi (binade x + 1)"
proof -
  have pos: "0 < \<bar>x\<bar>" using assms by simp
  have "(2::real) powr (of_int (binade x)) \<le> \<bar>x\<bar> \<and> \<bar>x\<bar> < 2 powr (of_int (binade x + 1))"
    using floor_log_eq_powr_iff [of "\<bar>x\<bar>" 2 "binade x"] pos by (simp add: binade_def)
  then show "2 powi binade x \<le> \<bar>x\<bar>" and "\<bar>x\<bar> < 2 powi (binade x + 1)"
    by (simp_all add: powr_powi powr_powi1)
qed

lemma round_even_of_int [simp]: "round_even (of_int z) = z"
  by (simp add: round_even_def)

lemma round_even_small: "\<bar>y\<bar> < 1 / 2 \<Longrightarrow> round_even y = 0"
proof (cases "0 \<le> y")
  case True
  assume "\<bar>y\<bar> < 1 / 2"
  with True have f: "\<lfloor>y\<rfloor> = 0" by (simp add: floor_eq_iff)
  then have "frac y = y" by (simp add: frac_def)
  with f \<open>\<bar>y\<bar> < 1 / 2\<close> True show ?thesis by (simp add: round_even_def)
next
  case False
  assume a: "\<bar>y\<bar> < 1 / 2"
  with False have f: "\<lfloor>y\<rfloor> = - 1" by (simp add: floor_eq_iff)
  then have fr: "frac y = y + 1" by (simp add: frac_def)
  have c: "\<lceil>y\<rceil> = 0" using a False by (simp add: ceiling_eq_iff)
  from f fr c a False show ?thesis by (simp add: round_even_def)
qed

lemma round_even_error: "\<bar>of_int (round_even y) - y\<bar> \<le> 1 / 2"
proof (cases "frac y < 1 / 2")
  case True
  have "of_int \<lfloor>y\<rfloor> = y - frac y" by (simp add: frac_def)
  moreover have "0 \<le> frac y" by simp
  ultimately show ?thesis using True by (simp add: round_even_def)
next
  case False
  have "y \<notin> \<int>"
  proof
    assume "y \<in> \<int>"
    then have "frac y = 0" by (simp add: frac_eq_0_iff)
    with False show False by linarith
  qed
  then have "y \<noteq> of_int \<lfloor>y\<rfloor>" by (metis Ints_of_int)
  then have "\<lceil>y\<rceil> = \<lfloor>y\<rfloor> + 1" by (simp add: ceiling_altdef)
  then have ce: "of_int \<lceil>y\<rceil> = y - frac y + 1" by (simp add: frac_def)
  have fl: "of_int \<lfloor>y\<rfloor> = y - frac y" by (simp add: frac_def)
  have lt: "frac y < 1" by (rule frac_lt_1)
  show ?thesis
  proof (cases "frac y > 1 / 2")
    case True
    with False ce lt show ?thesis unfolding round_even_def by (simp only: if_False if_True | linarith)+
  next
    case half: False
    with False have eq: "frac y = 1 / 2" by simp
    show ?thesis
    proof (cases "even \<lfloor>y\<rfloor>")
      case True
      with False half fl eq show ?thesis unfolding round_even_def by (simp only: if_False if_True | linarith)+
    next
      case odd: False
      with False half ce eq show ?thesis unfolding round_even_def by (simp only: if_False if_True | linarith)+
    qed
  qed
qed

lemma round_to_exactI:
  assumes x: "x = of_int m * 2 powi u" and q: "quantum p emin x \<le> u"
  shows "round_to p emin x = x"
proof (cases "x = 0")
  case True
  then show ?thesis by (simp add: round_to_def)
next
  case False
  define q where "q = quantum p emin x"
  have qu: "q \<le> u" using q by (simp add: q_def)
  have split: "(2::real) powi u = 2 powi (u - q) * 2 powi q"
    by (simp add: power_int_add [symmetric])
  have nat: "(2::real) powi (u - q) = of_int (2 ^ nat (u - q))"
    using qu by (simp add: power_int_def)
  have "x / 2 powi q = of_int m * 2 powi (u - q)"
    using x split by simp
  also have "\<dots> = of_int (m * 2 ^ nat (u - q))"
    using nat by simp
  finally have "round_even (x / 2 powi q) = m * 2 ^ nat (u - q)"
    by (simp only: round_even_of_int)
  then have "round_to p emin x = of_int (m * 2 ^ nat (u - q)) * 2 powi q"
    using False by (simp add: round_to_def q_def)
  also have "\<dots> = of_int m * (2 powi (u - q) * 2 powi q)"
    using nat by simp
  also have "\<dots> = x"
    using x split by simp
  finally show ?thesis .
qed

lemma powi_less_cancel:
  assumes "(2::real) powi a < 2 powi b"
  shows "a < b"
proof (rule ccontr)
  assume "\<not> a < b"
  then have "b \<le> a" by simp
  then have "(2::real) powi b \<le> 2 powi a"
    by (intro power_int_increasing) simp_all
  with assms show False by simp
qed

lemma round_to_dyadic:
  assumes z: "\<bar>z\<bar> < 2 ^ p" and u: "emin - (int p - 1) \<le> u"
  shows "round_to p emin (of_int z * 2 powi u) = of_int z * 2 powi u"
proof (cases "z = 0")
  case True
  then show ?thesis by (simp add: round_to_def)
next
  case False
  define x :: real where "x = of_int z * 2 powi u"
  have x0: "x \<noteq> 0" using False by (simp add: x_def)
  have "\<bar>x\<bar> = of_int \<bar>z\<bar> * 2 powi u"
    by (simp add: x_def abs_mult)
  also have "\<dots> < of_int (2 ^ p) * 2 powi u"
    using z by (intro mult_strict_right_mono) (simp_all only: of_int_less_iff zero_less_power_int zero_less_numeral)
  also have "\<dots> = 2 powi (int p + u)"
    by (simp add: power_int_add)
  finally have "\<bar>x\<bar> < 2 powi (int p + u)" .
  with binade_bounds(1) [OF x0] have "(2::real) powi binade x < 2 powi (int p + u)"
    by simp
  then have "binade x < int p + u" by (rule powi_less_cancel)
  then have "quantum p emin x \<le> u"
    using u by (simp add: quantum_def)
  then show ?thesis
    using round_to_exactI [of x z u p emin] by (simp add: x_def)
qed

lemma binade_double:
  assumes "x \<noteq> 0"
  shows "binade (2 * x) = binade x + 1"
proof (rule binade_eq)
  show "2 powi (binade x + 1) \<le> \<bar>2 * x\<bar>"
    using binade_bounds(1) [OF assms] by (simp add: power_int_add)
  show "\<bar>2 * x\<bar> < 2 powi (binade x + 1 + 1)"
    using binade_bounds(2) [OF assms] by (simp add: power_int_add)
qed

lemma round_to_double:
  assumes fixed: "round_to p emin x = x"
  shows "round_to p emin (2 * x) = 2 * x"
proof (cases "x = 0")
  case True
  then show ?thesis by (simp add: round_to_def)
next
  case False
  define q where "q = quantum p emin x"
  define m where "m = round_even (x / 2 powi q)"
  have x: "x = of_int m * 2 powi q"
    using fixed False by (simp add: round_to_def q_def m_def)
  have "2 * x = of_int m * 2 powi (q + 1)"
    using x by (simp add: power_int_add)
  moreover have "quantum p emin (2 * x) \<le> q + 1"
    using binade_double [OF False] by (simp add: quantum_def q_def)
  ultimately show ?thesis
    by (rule round_to_exactI)
qed

lemma round_to_eval:
  assumes "2 powi k \<le> \<bar>x\<bar>" and "\<bar>x\<bar> < 2 powi (k + 1)" and "emin \<le> k"
  shows "round_to p emin x =
           of_int (round_even (x / 2 powi (k - (int p - 1)))) * 2 powi (k - (int p - 1))"
proof -
  have "binade x = k" using assms(1,2) by (rule binade_eq)
  moreover have "x \<noteq> 0"
  proof
    assume "x = 0"
    with assms(1) have "(2::real) powi k \<le> 0"
      by simp
    moreover have "(0::real) < 2 powi k"
      by simp
    ultimately show False
      by linarith
  qed
  ultimately show ?thesis
    using assms(3) by (simp add: round_to_def quantum_def)
qed

lemma round_to_tiny:
  assumes "\<bar>x\<bar> < 2 powi (emin - int p)"
  shows "round_to p emin x = 0"
proof (cases "x = 0")
  case True
  then show ?thesis by (simp add: round_to_def)
next
  case False
  have "(2::real) powi binade x < 2 powi (emin - int p)"
    using binade_bounds(1) [OF False] assms by simp
  then have "binade x < emin - int p" by (rule powi_less_cancel)
  then have q: "quantum p emin x = emin - int p + 1"
    by (simp add: quantum_def)
  have "\<bar>x / 2 powi (emin - int p + 1)\<bar> = \<bar>x\<bar> / 2 powi (emin - int p + 1)"
    by (simp add: abs_divide)
  also have "\<dots> < 2 powi (emin - int p) / 2 powi (emin - int p + 1)"
    using assms by (intro divide_strict_right_mono) simp_all
  also have "\<dots> = 1 / 2"
    by (simp add: power_int_add)
  finally have "round_even (x / 2 powi (emin - int p + 1)) = 0"
    by (rule round_even_small)
  then show ?thesis
    using False q by (simp add: round_to_def)
qed

lemma round_even_bound:
  assumes "\<bar>y\<bar> \<le> of_int K"
  shows "\<bar>round_even y\<bar> \<le> K"
proof -
  have b: "- of_int K \<le> y" "y \<le> of_int K"
    using assms by (auto simp add: abs_le_iff)
  have "- K \<le> \<lfloor>y\<rfloor>"
    using b(1) by (simp add: le_floor_iff)
  moreover have "\<lceil>y\<rceil> \<le> K"
    using b(2) by (simp add: ceiling_le_iff)
  moreover have "\<lfloor>y\<rfloor> \<le> K"
    using b(2) by (meson floor_mono floor_of_int order_trans of_int_floor_le of_int_le_iff)
  moreover have "- K \<le> \<lceil>y\<rceil>"
    using b(1) by (metis ceiling_mono ceiling_of_int of_int_minus)
  ultimately show ?thesis
    by (auto simp add: round_even_def abs_le_iff)
qed

lemma round_to_idem:
  assumes "0 < p"
  shows "round_to p emin (round_to p emin x) = round_to p emin x"
proof (cases "x = 0")
  case True
  then show ?thesis by (simp add: round_to_def)
next
  case False
  define q where "q = quantum p emin x"
  define m where "m = round_even (x / 2 powi q)"
  have r: "round_to p emin x = of_int m * 2 powi q"
    using False by (simp add: round_to_def q_def m_def)
  have low: "emin - (int p - 1) \<le> q"
    by (simp add: q_def quantum_def)
  have "binade x + 1 \<le> q + int p"
    by (simp add: q_def quantum_def)
  then have "(2::real) powi (binade x + 1) \<le> 2 powi (q + int p)"
    by (intro power_int_increasing) simp_all
  with binade_bounds(2) [OF False] have "\<bar>x\<bar> < 2 powi (q + int p)"
    by simp
  then have "\<bar>x\<bar> / 2 powi q < 2 powi (q + int p) / 2 powi q"
    by (intro divide_strict_right_mono) simp_all
  then have "\<bar>x / 2 powi q\<bar> < 2 ^ p"
    by (simp add: power_int_add)
  then have "\<bar>x / 2 powi q\<bar> \<le> of_int (2 ^ p)"
    by simp
  then have mb: "\<bar>m\<bar> \<le> 2 ^ p"
    unfolding m_def by (rule round_even_bound)
  show ?thesis
  proof (cases "\<bar>m\<bar> < 2 ^ p")
    case True
    then show ?thesis
      unfolding r using low by (rule round_to_dyadic)
  next
    case top: False
    with mb have "\<bar>m\<bar> = 2 ^ p" by simp
    then have "m = 2 ^ p \<or> m = - (2 ^ p)"
      by (auto simp add: abs_if split: if_splits)
    then have "\<exists>s::int. \<bar>s\<bar> = 1 \<and> of_int m * (2::real) powi q = of_int s * 2 powi (int p + q)"
    proof
      assume "m = 2 ^ p"
      then have "of_int m * (2::real) powi q = of_int 1 * 2 powi (int p + q)"
        by (simp add: power_int_add)
      then show ?thesis by (intro exI [of _ 1]) simp
    next
      assume "m = - (2 ^ p)"
      then have "of_int m * (2::real) powi q = of_int (- 1) * 2 powi (int p + q)"
        by (simp add: power_int_add)
      then show ?thesis by (intro exI [of _ "- 1"]) simp
    qed
    then obtain s :: int where s: "\<bar>s\<bar> = 1"
        and e: "of_int m * (2::real) powi q = of_int s * 2 powi (int p + q)"
      by blast
    have "\<bar>s\<bar> < 2 ^ p"
      using s assms by (simp add: one_less_power)
    moreover have "emin - (int p - 1) \<le> int p + q"
      using low by simp
    ultimately have "round_to p emin (of_int s * 2 powi (int p + q)) = of_int s * 2 powi (int p + q)"
      by (rule round_to_dyadic)
    then show ?thesis
      unfolding r e .
  qed
qed

lemma round_to_rel_error:
  assumes "2 powi emin \<le> \<bar>x\<bar>"
  shows "\<bar>round_to p emin x - x\<bar> \<le> \<bar>x\<bar> / 2 ^ p"
proof -
  have x0: "x \<noteq> 0"
  proof
    assume "x = 0"
    with assms have "(2::real) powi emin \<le> 0"
      by simp
    moreover have "(0::real) < 2 powi emin"
      by simp
    ultimately show False
      by linarith
  qed
  have "(2::real) powi emin < 2 powi (binade x + 1)"
    using assms binade_bounds(2) [OF x0] by simp
  then have "emin < binade x + 1" by (rule powi_less_cancel)
  then have q: "quantum p emin x = binade x - (int p - 1)"
    by (simp add: quantum_def)
  define q where "q = binade x - (int p - 1)"
  define y where "y = x / 2 powi q"
  have x: "x = y * 2 powi q" by (simp add: y_def)
  have "round_to p emin x = of_int (round_even y) * 2 powi q"
    unfolding round_to_def q y_def q_def using x0 by simp
  then have "round_to p emin x - x = (of_int (round_even y) - y) * 2 powi q"
    using x by (simp add: algebra_simps)
  then have "\<bar>round_to p emin x - x\<bar> = \<bar>of_int (round_even y) - y\<bar> * 2 powi q"
    by (simp add: abs_mult)
  also have "\<dots> \<le> 1 / 2 * 2 powi q"
    by (intro mult_right_mono round_even_error) simp
  also have "\<dots> = 2 powi binade x / 2 ^ p"
    by (simp add: q_def power_int_diff power_int_add)
  also have "\<dots> \<le> \<bar>x\<bar> / 2 ^ p"
    using binade_bounds(1) [OF x0] by (intro divide_right_mono) simp_all
  finally show ?thesis .
qed

section \<open>Properties of the binary32 operations\<close>

text \<open>
  Values of the conversions: zero, integers below \<open>2^24\<close> and their multiples by a power
  of two are binary32 values; \<open>to_float_eval\<close> and \<open>to_double_eval\<close> compute a rounding
  from the binade of the argument. A result of \<open>to_float\<close> is a binary32 value, and the
  double of a binary32 value below \<open>2^127\<close> is computed exactly.
\<close>

lemma to_float_zero [simp]: "to_float 0 = Fin 0"
  by (simp add: to_float_def fp_round_def round_to_def)

lemma to_double_zero [simp]: "to_double 0 = Fin 0"
  by (simp add: to_double_def fp_round_def round_to_def)

lemma to_float_not_NaN [simp]: "to_float x \<noteq> NaN"
  by (simp add: to_float_def fp_round_def Let_def)

lemma to_float_int:
  assumes "\<bar>z\<bar> < 2 ^ 24"
  shows "to_float (of_int z) = Fin (of_int z)"
proof -
  have r: "round_to 24 (- 126) (of_int z) = of_int z"
    using round_to_dyadic [of z 24 "- 126" 0] assms by simp
  have "\<bar>(of_int z :: real)\<bar> < 2 ^ 24"
    using assms by (metis of_int_abs of_int_less_numeral_power_cancel_iff)
  then have "\<bar>(of_int z :: real)\<bar> < 2 ^ 128"
    by (rule less_trans) simp
  then show ?thesis
    using r by (auto simp add: to_float_def fp_round_def Let_def abs_less_iff)
qed

lemma to_float_dyadic:
  assumes "\<bar>z\<bar> < 2 ^ 24" and "- 149 \<le> u" and "\<bar>of_int z * 2 powi u\<bar> < (2::real) ^ 128"
  shows "to_float (of_int z * 2 powi u) = Fin (of_int z * 2 powi u)"
proof -
  have "round_to 24 (- 126) (of_int z * 2 powi u) = of_int z * 2 powi u"
    using assms(1,2) by (intro round_to_dyadic) simp_all
  then show ?thesis
    using assms(3) by (auto simp add: to_float_def fp_round_def Let_def abs_less_iff)
qed

lemma to_float_eval:
  assumes "2 powi k \<le> \<bar>x\<bar>" and "\<bar>x\<bar> < 2 powi (k + 1)" and "- 126 \<le> k"
      and "r = of_int (round_even (x / 2 powi (k - 23))) * 2 powi (k - 23)"
      and "\<bar>r\<bar> < 2 ^ 128"
  shows "to_float x = Fin r"
  using round_to_eval [OF assms(1,2,3), of 24] assms(4,5)
  by (auto simp add: to_float_def fp_round_def Let_def abs_less_iff)

lemma to_double_eval:
  assumes "2 powi k \<le> \<bar>x\<bar>" and "\<bar>x\<bar> < 2 powi (k + 1)" and "- 1022 \<le> k"
      and "r = of_int (round_even (x / 2 powi (k - 52))) * 2 powi (k - 52)"
      and "\<bar>r\<bar> < 2 ^ 1024"
  shows "to_double x = Fin r"
  using round_to_eval [OF assms(1,2,3), of 53] assms(4,5)
  by (auto simp add: to_double_def fp_round_def Let_def abs_less_iff)

lemma is_float_to_float:
  assumes "to_float x = Fin r"
  shows "is_float r"
proof -
  have r: "r = round_to 24 (- 126) x" and b: "\<bar>r\<bar> < 2 ^ 128"
    using assms by (auto simp add: to_float_def fp_round_def Let_def split: if_splits)
  have "round_to 24 (- 126) r = r"
    unfolding r by (rule round_to_idem) simp
  with b show ?thesis by (simp add: is_float_def)
qed

lemma is_float_narrow:
  assumes "narrow X = Fin t"
  shows "is_float t"
  using assms by (cases X) (auto intro: is_float_to_float)

lemma fadd_self:
  assumes "is_float n" and "\<bar>n\<bar> < 2 ^ 127"
  shows "fadd (Fin n) (Fin n) = Fin (2 * n)"
proof -
  have "round_to 24 (- 126) (2 * n) = 2 * n"
    using assms(1) by (intro round_to_double) (simp add: is_float_def)
  moreover have "\<bar>2 * n\<bar> < 2 ^ 128"
    using assms(2) by simp
  ultimately show ?thesis
    by (auto simp add: to_float_def fp_round_def Let_def abs_less_iff)
qed

lemma fsub_neg_self:
  assumes "is_float r" and "\<bar>r\<bar> < 2 ^ 127"
  shows "fsub (Fin r) (fp_neg (Fin r)) = Fin (2 * r)"
  using fadd_self [OF assms] by (simp add: fp_sub_def)

subsection \<open>The zero test of \<open>normal\<close>\<close>

text \<open>
  On a block of integers of absolute value at most 128 every product and every sum of
  the expansion is an integer below \<open>2^24\<close>, so the computed \<open>d\<close> is the determinant.
\<close>

lemma fmul_int:
  "\<bar>i * j\<bar> < 2 ^ 24 \<Longrightarrow> fmul (Fin (of_int i)) (Fin (of_int j)) = Fin (of_int (i * j))"
  using to_float_int [of "i * j"] by simp

lemma fadd_int:
  "\<bar>i + j\<bar> < 2 ^ 24 \<Longrightarrow> fadd (Fin (of_int i)) (Fin (of_int j)) = Fin (of_int (i + j))"
  using to_float_int [of "i + j"] by simp

lemma fsub_int:
  "\<bar>i - j\<bar> < 2 ^ 24 \<Longrightarrow> fsub (Fin (of_int i)) (Fin (of_int j)) = Fin (of_int (i - j))"
  using to_float_int [of "i - j"] by (simp add: fp_sub_def)

lemma small_product:
  fixes x y z :: int
  assumes "\<bar>x\<bar> \<le> 128" and "\<bar>y\<bar> \<le> 128" and "\<bar>z\<bar> \<le> 128"
  shows "\<bar>x * y\<bar> \<le> 16384" and "\<bar>x * y * z\<bar> \<le> 2097152"
proof -
  have "\<bar>x * y\<bar> = \<bar>x\<bar> * \<bar>y\<bar>" by (simp add: abs_mult)
  also have "\<dots> \<le> 128 * 128" using assms(1,2) by (intro mult_mono) simp_all
  finally show xy: "\<bar>x * y\<bar> \<le> 16384" by simp
  have "\<bar>x * y * z\<bar> = \<bar>x * y\<bar> * \<bar>z\<bar>" by (simp add: abs_mult)
  also have "\<dots> \<le> 16384 * 128" using xy assms(3) by (intro mult_mono) simp_all
  finally show "\<bar>x * y * z\<bar> \<le> 2097152" by simp
qed

lemma fmul3_int:
  fixes x y z :: int
  assumes "\<bar>x\<bar> \<le> 128" and "\<bar>y\<bar> \<le> 128" and "\<bar>z\<bar> \<le> 128"
  shows "fmul (fmul (Fin (of_int x)) (Fin (of_int y))) (Fin (of_int z)) = Fin (of_int (x * y * z))"
proof -
  have "\<bar>x * y\<bar> < 2 ^ 24" using small_product(1) [OF assms] by simp
  then have "fmul (Fin (of_int x)) (Fin (of_int y)) = Fin (of_int (x * y))" by (rule fmul_int)
  moreover have "\<bar>x * y * z\<bar> < 2 ^ 24" using small_product(2) [OF assms] by simp
  ultimately show ?thesis using fmul_int [of "x * y" z] by simp
qed

lemma normal_d_mat4:
  "normal_d (mat4 A B C w0 D E F w1 G H I w2 w3 w4 w5 w6) =
     fsub (fadd (fsub (fadd (fsub (fmul (fmul A E) I) (fmul (fmul A F) H))
                            (fmul (fmul B F) G))
                      (fmul (fmul B D) I))
                (fmul (fmul C D) H))
          (fmul (fmul C E) G)"
  by (simp add: normal_d_def mat4_def)

lemma normal_d_int:
  fixes a b c d e f g h i :: int
  assumes "list_all (\<lambda>m. \<bar>m\<bar> \<le> 128) [a, b, c, d, e, f, g, h, i]"
  shows "normal_d (mat4 (Fin (of_int a)) (Fin (of_int b)) (Fin (of_int c)) w0
                        (Fin (of_int d)) (Fin (of_int e)) (Fin (of_int f)) w1
                        (Fin (of_int g)) (Fin (of_int h)) (Fin (of_int i)) w2
                        w3 w4 w5 w6)
         = Fin (of_int (a * e * i - a * f * h + b * f * g - b * d * i + c * d * h - c * e * g))"
proof -
  from assms have B: "\<bar>a\<bar> \<le> 128" "\<bar>b\<bar> \<le> 128" "\<bar>c\<bar> \<le> 128" "\<bar>d\<bar> \<le> 128" "\<bar>e\<bar> \<le> 128"
    "\<bar>f\<bar> \<le> 128" "\<bar>g\<bar> \<le> 128" "\<bar>h\<bar> \<le> 128" "\<bar>i\<bar> \<le> 128"
    by simp_all
  note T = small_product(2)
  have t1: "\<bar>a * e * i\<bar> \<le> 2097152" using B by (intro T)
  have t2: "\<bar>a * f * h\<bar> \<le> 2097152" using B by (intro T)
  have t3: "\<bar>b * f * g\<bar> \<le> 2097152" using B by (intro T)
  have t4: "\<bar>b * d * i\<bar> \<le> 2097152" using B by (intro T)
  have t5: "\<bar>c * d * h\<bar> \<le> 2097152" using B by (intro T)
  have t6: "\<bar>c * e * g\<bar> \<le> 2097152" using B by (intro T)
  have s1: "\<bar>a * e * i - a * f * h\<bar> < 2 ^ 24" using t1 t2 by simp
  have s2: "\<bar>a * e * i - a * f * h + b * f * g\<bar> < 2 ^ 24" using t1 t2 t3 by simp
  have s3: "\<bar>a * e * i - a * f * h + b * f * g - b * d * i\<bar> < 2 ^ 24" using t1 t2 t3 t4 by simp
  have s4: "\<bar>a * e * i - a * f * h + b * f * g - b * d * i + c * d * h\<bar> < 2 ^ 24"
    using t1 t2 t3 t4 t5 by simp
  have s5: "\<bar>a * e * i - a * f * h + b * f * g - b * d * i + c * d * h - c * e * g\<bar> < 2 ^ 24"
    using t1 t2 t3 t4 t5 t6 by simp
  have p1: "fmul (fmul (Fin (of_int a)) (Fin (of_int e))) (Fin (of_int i)) = Fin (of_int (a * e * i))"
    using B by (intro fmul3_int)
  have p2: "fmul (fmul (Fin (of_int a)) (Fin (of_int f))) (Fin (of_int h)) = Fin (of_int (a * f * h))"
    using B by (intro fmul3_int)
  have p3: "fmul (fmul (Fin (of_int b)) (Fin (of_int f))) (Fin (of_int g)) = Fin (of_int (b * f * g))"
    using B by (intro fmul3_int)
  have p4: "fmul (fmul (Fin (of_int b)) (Fin (of_int d))) (Fin (of_int i)) = Fin (of_int (b * d * i))"
    using B by (intro fmul3_int)
  have p5: "fmul (fmul (Fin (of_int c)) (Fin (of_int d))) (Fin (of_int h)) = Fin (of_int (c * d * h))"
    using B by (intro fmul3_int)
  have p6: "fmul (fmul (Fin (of_int c)) (Fin (of_int e))) (Fin (of_int g)) = Fin (of_int (c * e * g))"
    using B by (intro fmul3_int)
  show ?thesis
    by (simp only: normal_d_mat4 p1 p2 p3 p4 p5 p6 fsub_int [OF s1] fadd_int [OF s2]
          fsub_int [OF s3] fadd_int [OF s4] fsub_int [OF s5])
qed

lemma to_float_numeral:
  "(numeral w :: int) < 2 ^ 24 \<Longrightarrow> to_float (numeral w) = Fin (numeral w)"
  using to_float_int [of "numeral w"] by simp

lemma to_float_neg_numeral:
  "(numeral w :: int) < 2 ^ 24 \<Longrightarrow> to_float (- numeral w) = Fin (- numeral w)"
  using to_float_int [of "- numeral w"] by simp

text \<open>The roundings that occur for the block with rows (3, 0, 4097), (0, 4097, 0), (3, 4097, 4097).\<close>

lemma round_3_4097_4097: "to_float 50356227 = Fin 50356228"
  by (rule to_float_eval [of 25]) (simp_all add: round_even_def frac_def)

lemma round_4097_4097: "to_float 16785409 = Fin 16785408"
  by (rule to_float_eval [of 24]) (simp_all add: round_even_def frac_def)

lemma round_50356224: "to_float 50356224 = Fin 50356224"
  by (rule to_float_eval [of 25]) (simp_all add: round_even_def frac_def)

lemma round_50356228: "to_float 50356228 = Fin 50356228"
  by (rule to_float_eval [of 25]) (simp_all add: round_even_def frac_def)

lemma round_16785408: "to_float 16785408 = Fin 16785408"
  by (rule to_float_eval [of 24]) (simp_all add: round_even_def frac_def)

lemma round_neg_16785408: "to_float (- 16785408) = Fin (- 16785408)"
  by (rule to_float_eval [of 24]) (simp_all add: round_even_def frac_def)

lemma round_neg_4097_4097: "to_float (- 16785409) = Fin (- 16785408)"
  by (rule to_float_eval [of 24]) (simp_all add: round_even_def frac_def)

lemmas singular_block_roundings = round_neg_4097_4097
  to_float_numeral to_float_neg_numeral round_3_4097_4097 round_4097_4097 round_50356224
  round_50356228 round_16785408 round_neg_16785408

text \<open>
  Claim C5: for every 4x4 matrix whose upper-left 3x3 block has a determinant of absolute
  value zero, \<open>normal\<close> returns the identity 3x3 matrix, the value of \<^verbatim>\<open>mat3()\<close>.
  As stated, of the determinant of the block, this fails: the source tests the value
  \<open>d\<close> it has computed, every product and sum rounded. The block with rows
  (3, 0, 4097), (0, 4097, 0), (3, 4097, 4097) has determinant 0, its entries are
  \<^verbatim>\<open>GLfloat\<close> values, and the source computes \<open>d = 4\<close>: the product 3 * 4097 * 4097 =
  50356227 rounds to 50356228, and 4097 * 4097 = 16785409 rounds to 16785408 before
  it is multiplied by 3. The source then returns the nine rounded cofactors.
\<close>

theorem normal_singular_block_not_identity:
  "spec_det3 (mat4 3 0 4097 0  0 4097 0 0  3 4097 4097 0  0 0 0 1) = 0
   \<and> normal_d (mat4 (Fin 3) (Fin 0) (Fin 4097) (Fin 0)
                     (Fin 0) (Fin 4097) (Fin 0) (Fin 0)
                     (Fin 3) (Fin 4097) (Fin 4097) (Fin 0)
                     (Fin 0) (Fin 0) (Fin 0) (Fin 1)) = Fin 4
   \<and> normal_binary32 (mat4 (Fin 3) (Fin 0) (Fin 4097) (Fin 0)
                            (Fin 0) (Fin 4097) (Fin 0) (Fin 0)
                            (Fin 3) (Fin 4097) (Fin 4097) (Fin 0)
                            (Fin 0) (Fin 0) (Fin 0) (Fin 1)) =
       mat3 (Fin 16785408) (Fin 0) (Fin (- 12291))
            (Fin 16785408) (Fin 0) (Fin (- 12291))
            (Fin (- 16785408)) (Fin 0) (Fin 12291)
   \<and> normal_binary32 (mat4 (Fin 3) (Fin 0) (Fin 4097) (Fin 0)
                            (Fin 0) (Fin 4097) (Fin 0) (Fin 0)
                            (Fin 3) (Fin 4097) (Fin 4097) (Fin 0)
                            (Fin 0) (Fin 0) (Fin 0) (Fin 1)) \<noteq>
       mat3 (Fin 1) (Fin 0) (Fin 0) (Fin 0) (Fin 1) (Fin 0) (Fin 0) (Fin 0) (Fin 1)"
proof -
  have det: "spec_det3 (mat4 3 0 4097 0  0 4097 0 0  3 4097 4097 0  0 0 0 1) = 0"
    by (simp add: spec_det3_def spec_cofactor3_def mat4_def)
  have run: "normal_d (mat4 (Fin 3) (Fin 0) (Fin 4097) (Fin 0)
                     (Fin 0) (Fin 4097) (Fin 0) (Fin 0)
                     (Fin 3) (Fin 4097) (Fin 4097) (Fin 0)
                     (Fin 0) (Fin 0) (Fin 0) (Fin 1)) = Fin 4
   \<and> normal_binary32 (mat4 (Fin 3) (Fin 0) (Fin 4097) (Fin 0)
                            (Fin 0) (Fin 4097) (Fin 0) (Fin 0)
                            (Fin 3) (Fin 4097) (Fin 4097) (Fin 0)
                            (Fin 0) (Fin 0) (Fin 0) (Fin 1)) =
       mat3 (Fin 16785408) (Fin 0) (Fin (- 12291))
            (Fin 16785408) (Fin 0) (Fin (- 12291))
            (Fin (- 16785408)) (Fin 0) (Fin 12291)"
    by (simp add: normal_binary32_def normal_d_def mat4_def fp_sub_def singular_block_roundings)
  have "mat3 (Fin 16785408) (Fin 0) (Fin (- 12291))
            (Fin 16785408) (Fin 0) (Fin (- 12291))
            (Fin (- 16785408)) (Fin 0) (Fin 12291) \<noteq>
       mat3 (Fin 1) (Fin 0) (Fin 0) (Fin 0) (Fin 1) (Fin 0) (Fin 0) (Fin 0) (Fin 1)"
    by (simp add: mat3_def)
  with det run show ?thesis
    by simp
qed

text \<open>
  Claim C5, amended: the determinant that decides is the value \<open>d\<close> the source computes
  in \<^verbatim>\<open>GLfloat\<close> arithmetic. Whenever it is zero, \<open>normal\<close> returns the identity 3x3
  matrix, the value of \<^verbatim>\<open>mat3()\<close>, whatever the other entries of the matrix. It is zero
  for the all-zeros matrix, and for every matrix whose block has integer entries of
  absolute value at most 128 and determinant 0.
\<close>

theorem normal_zero_determinant_is_identity:
  "(fp_abs (normal_d M) = Fin 0 \<longrightarrow>
      normal_binary32 M =
        mat3 (Fin 1) (Fin 0) (Fin 0) (Fin 0) (Fin 1) (Fin 0) (Fin 0) (Fin 0) (Fin 1))
   \<and> (list_all (\<lambda>m. \<bar>m\<bar> \<le> 128) [a, b, c, d, e, f, g, h, i]
      \<and> spec_det3 (mat4 (of_int a) (of_int b) (of_int c) 0
                        (of_int d) (of_int e) (of_int f) 0
                        (of_int g) (of_int h) (of_int i) 0
                        0 0 0 1) = 0 \<longrightarrow>
      normal_binary32 (mat4 (Fin (of_int a)) (Fin (of_int b)) (Fin (of_int c)) w0
                            (Fin (of_int d)) (Fin (of_int e)) (Fin (of_int f)) w1
                            (Fin (of_int g)) (Fin (of_int h)) (Fin (of_int i)) w2
                            w3 w4 w5 w6) =
        mat3 (Fin 1) (Fin 0) (Fin 0) (Fin 0) (Fin 1) (Fin 0) (Fin 0) (Fin 0) (Fin 1))"
proof (intro conjI impI)
  assume "fp_abs (normal_d M) = Fin 0"
  then show "normal_binary32 M =
        mat3 (Fin 1) (Fin 0) (Fin 0) (Fin 0) (Fin 1) (Fin 0) (Fin 0) (Fin 0) (Fin 1)"
    by (simp add: normal_binary32_def)
next
  assume h: "list_all (\<lambda>m. \<bar>m\<bar> \<le> 128) [a, b, c, d, e, f, g, h, i]
      \<and> spec_det3 (mat4 (of_int a) (of_int b) (of_int c) 0
                        (of_int d) (of_int e) (of_int f) 0
                        (of_int g) (of_int h) (of_int i) 0
                        0 0 0 1) = 0"
  have "spec_det3 (mat4 (of_int a) (of_int b) (of_int c) 0
                        (of_int d) (of_int e) (of_int f) 0
                        (of_int g) (of_int h) (of_int i) 0
                        0 0 0 1)
        = of_int (a * e * i - a * f * h + b * f * g - b * d * i + c * d * h - c * e * g)"
    by (simp add: spec_det3_def spec_cofactor3_def mat4_def algebra_simps)
  with h have z: "a * e * i - a * f * h + b * f * g - b * d * i + c * d * h - c * e * g = 0"
    by (simp only: of_int_eq_0_iff)
  have "normal_d (mat4 (Fin (of_int a)) (Fin (of_int b)) (Fin (of_int c)) w0
                            (Fin (of_int d)) (Fin (of_int e)) (Fin (of_int f)) w1
                            (Fin (of_int g)) (Fin (of_int h)) (Fin (of_int i)) w2
                            w3 w4 w5 w6) = Fin 0"
    using normal_d_int [of a b c d e f g h i w0 w1 w2 w3 w4 w5 w6] h z by simp
  then show "normal_binary32 (mat4 (Fin (of_int a)) (Fin (of_int b)) (Fin (of_int c)) w0
                            (Fin (of_int d)) (Fin (of_int e)) (Fin (of_int f)) w1
                            (Fin (of_int g)) (Fin (of_int h)) (Fin (of_int i)) w2
                            w3 w4 w5 w6) =
        mat3 (Fin 1) (Fin 0) (Fin 0) (Fin 0) (Fin 1) (Fin 0) (Fin 0) (Fin 0) (Fin 1)"
    by (simp add: normal_binary32_def)
qed

text \<open>
  The all-zeros matrix, and the matrix whose block has the rows (1, 2, 3), (2, 4, 6),
  (7, 8, 9), the second twice the first, with a translation column.
\<close>

theorem normal_zero_determinant_is_identity_witness:
  "normal_binary32 (mat4 (Fin 0) (Fin 0) (Fin 0) (Fin 0) (Fin 0) (Fin 0) (Fin 0) (Fin 0)
                         (Fin 0) (Fin 0) (Fin 0) (Fin 0) (Fin 0) (Fin 0) (Fin 0) (Fin 0)) =
     mat3 (Fin 1) (Fin 0) (Fin 0) (Fin 0) (Fin 1) (Fin 0) (Fin 0) (Fin 0) (Fin 1)
   \<and> normal_binary32 (mat4 (Fin 1) (Fin 2) (Fin 3) (Fin 5)
                            (Fin 2) (Fin 4) (Fin 6) (Fin 6)
                            (Fin 7) (Fin 8) (Fin 9) (Fin 7)
                            (Fin 0) (Fin 0) (Fin 0) (Fin 1)) =
     mat3 (Fin 1) (Fin 0) (Fin 0) (Fin 0) (Fin 1) (Fin 0) (Fin 0) (Fin 0) (Fin 1)"
  using normal_zero_determinant_is_identity
          [where M = "mat4 (Fin 0) (Fin 0) (Fin 0) (Fin 0) (Fin 0) (Fin 0) (Fin 0) (Fin 0)
                           (Fin 0) (Fin 0) (Fin 0) (Fin 0) (Fin 0) (Fin 0) (Fin 0) (Fin 0)"
             and a = 1 and b = 2 and c = 3 and d = 2 and e = 4 and f = 6
             and g = 7 and h = 8 and i = 9
             and ?w0.0 = "Fin 5" and ?w1.0 = "Fin 6" and ?w2.0 = "Fin 7"
             and ?w3.0 = "Fin 0" and ?w4.0 = "Fin 0" and ?w5.0 = "Fin 0" and ?w6.0 = "Fin 1"]
  by (simp add: normal_d_def mat4_def fp_sub_def spec_det3_def spec_cofactor3_def)

subsection \<open>The two perspective constructors\<close>

text \<open>
  A sample tangent, \<open>tan_sample\<close>, gives the library's value at the argument 1/2; with
  it the constructors are evaluated at a field of view of 1 radian.
\<close>

lemma half: "fdiv (Fin 1) (Fin 2) = Fin (1 / 2)"
  using to_float_dyadic [of 1 "- 1"] by simp

lemma tan_half_double: "to_double 0.5463024898437905 = Fin (2460327689692069 / 2 ^ 52)"
  by (rule to_double_eval [of "- 1"]) (simp_all add: round_even_def frac_def)

lemma tan_half_float: "to_float (2460327689692069 / 2 ^ 52) = Fin (9165435 / 2 ^ 24)"
  by (rule to_float_eval [of "- 1"]) (simp_all add: round_even_def frac_def)

lemma tan_at_half: "fp_tan tan_sample (Fin (1 / 2)) = Fin 0.5463024898437905"
  by (simp add: tan_sample_def)

lemma top_at_1:
  "narrow (dmul (Fin 1) (fp_tan tan_sample (fdiv (Fin 1) (Fin 2)))) = Fin (9165435 / 2 ^ 24)"
proof -
  have m: "dmul (Fin 1) (Fin 0.5463024898437905) = Fin (2460327689692069 / 2 ^ 52)"
    using tan_half_double by simp
  have n: "narrow (Fin (2460327689692069 / 2 ^ 52)) = Fin (9165435 / 2 ^ 24)"
    using tan_half_float by simp
  show ?thesis
    by (simp only: half tan_at_half m n)
qed

lemma top_at_0:
  "narrow (dmul (Fin 0) (fp_tan tan_sample (fdiv (Fin 1) (Fin 2)))) = Fin 0"
proof -
  have m: "dmul (Fin 0) (Fin 0.5463024898437905) = Fin 0"
    by simp
  have n: "narrow (Fin 0) = Fin 0"
    by simp
  show ?thesis
    by (simp only: half tan_at_half m n)
qed

lemma top_at_big:
  "narrow (dmul (Fin (2 ^ 127)) (fp_tan tan_sample (fdiv (Fin 1) (Fin 2))))
     = Fin (9165435 * 2 ^ 103)"
proof -
  have m: "dmul (Fin (2 ^ 127)) (Fin 0.5463024898437905) = Fin (2460327689692069 * 2 ^ 75)"
    unfolding fp_mul.simps
    by (rule to_double_eval [of 126]) (simp_all add: round_even_def frac_def)
  have n: "narrow (Fin (2460327689692069 * 2 ^ 75)) = Fin (9165435 * 2 ^ 103)"
    unfolding narrow.simps
    by (rule to_float_eval [of 126]) (simp_all add: round_even_def frac_def)
  show ?thesis
    by (simp only: half tan_at_half m n)
qed

lemma right_at_big: "fmul (Fin (9165435 * 2 ^ 103)) (Fin 1) = Fin (9165435 * 2 ^ 103)"
  using to_float_dyadic [of 9165435 103] by simp

lemma quotient_at_big:
  "fdiv (Fin (2 ^ 127)) (Fin (9165435 * 2 ^ 103)) = Fin (3838811 / 2097152)"
proof -
  have "to_float (2 ^ 127 / (9165435 * 2 ^ 103)) = Fin (3838811 / 2097152)"
    by (rule to_float_eval [of 0]) (simp_all add: round_even_def frac_def)
  then show ?thesis
    by simp
qed

lemma double_at_big: "fadd (Fin (2 ^ 127)) (Fin (2 ^ 127)) = PInf"
proof -
  have "round_to 24 (- 126) (of_int 1 * 2 powi 128) = of_int 1 * 2 powi 128"
    by (rule round_to_dyadic) simp_all
  then have "round_to 24 (- 126) (2 ^ 127 + 2 ^ 127) = 2 ^ 128"
    by simp
  then show ?thesis
    unfolding fp_add.simps to_float_def fp_round_def Let_def by simp
qed

lemma width_at_big:
  "fsub (Fin (9165435 * 2 ^ 103)) (fp_neg (Fin (9165435 * 2 ^ 103))) = Fin (9165435 * 2 ^ 104)"
  using to_float_dyadic [of 9165435 104] by (simp add: fp_sub_def)

lemma float_2_127: "is_float (2 ^ 127)"
  using to_float_dyadic [of 1 127] by (intro is_float_to_float [of "2 ^ 127"]) simp

text \<open>
  Claim C2: for every field of view \<open>v\<close>, aspect ratio \<open>a\<close> and distances \<open>n\<close>, \<open>f\<close>, the
  four-argument constructor gives the matrix of the six-argument constructor at
  \<open>t = n * tan (v / 2)\<close>, \<open>b = - t\<close>, \<open>r = t * a\<close>, \<open>l = - r\<close>, the bounds computed as the
  four-argument constructor computes its \<^verbatim>\<open>y\<close> and \<^verbatim>\<open>x\<close>. As stated this fails in two
  ways. Where the frustum is degenerate: at \<open>n = 0\<close> the bounds are all 0, entry
  \<open>[0][2]\<close> of the six-argument form is the quotient \<open>(r + l) / (r - l)\<close> of zero by zero,
  a NaN, and the same entry of the four-argument form is the constant 0. Where the
  doubled near distance overflows: at \<open>n = 2^127\<close>, a \<^verbatim>\<open>GLfloat\<close> value, with \<open>v = 1\<close>
  and \<open>a = 1\<close>, the bounds are the finite non-zero value \<open>9165435 * 2^103\<close>, entry
  \<open>[0][0]\<close> of the four-argument form is \<open>n / x\<close>, about 1.83, and that of the six-argument
  form is \<open>(n + n) / (r - l)\<close>, where \<open>n + n\<close> is infinite, so the entry is infinite.
\<close>

theorem perspective_forms_differ:
  "narrow (dmul (Fin 0) (fp_tan tan_sample (fdiv (Fin 1) (Fin 2)))) = Fin 0
   \<and> fmul (Fin 0) (Fin 1) = Fin 0
   \<and> el4 (perspective4 tan_sample (Fin 1) (Fin 1) (Fin 0) (Fin 1)) 0 2 = Fin 0
   \<and> el4 (perspective6 (fp_neg (Fin 0)) (Fin 0) (fp_neg (Fin 0)) (Fin 0) (Fin 0) (Fin 1)) 0 2 = NaN
   \<and> narrow (dmul (Fin (2 ^ 127)) (fp_tan tan_sample (fdiv (Fin 1) (Fin 2))))
       = Fin (9165435 * 2 ^ 103)
   \<and> fmul (Fin (9165435 * 2 ^ 103)) (Fin 1) = Fin (9165435 * 2 ^ 103)
   \<and> is_float (2 ^ 127)
   \<and> el4 (perspective4 tan_sample (Fin 1) (Fin 1) (Fin (2 ^ 127)) (Fin 1)) 0 0
       = Fin (3838811 / 2097152)
   \<and> el4 (perspective6 (fp_neg (Fin (9165435 * 2 ^ 103))) (Fin (9165435 * 2 ^ 103))
                        (fp_neg (Fin (9165435 * 2 ^ 103))) (Fin (9165435 * 2 ^ 103))
                        (Fin (2 ^ 127)) (Fin 1)) 0 0 = PInf"
proof -
  have z: "narrow (dmul (Fin 0) (fp_tan tan_sample (fdiv (Fin 1) (Fin 2)))) = Fin 0
   \<and> fmul (Fin 0) (Fin 1) = Fin 0
   \<and> el4 (perspective4 tan_sample (Fin 1) (Fin 1) (Fin 0) (Fin 1)) 0 2 = Fin 0
   \<and> el4 (perspective6 (fp_neg (Fin 0)) (Fin 0) (fp_neg (Fin 0)) (Fin 0) (Fin 0) (Fin 1)) 0 2 = NaN"
    unfolding perspective4_def perspective6_def Let_def top_at_0
    by (simp add: mat4_def fp_sub_def)
  have a: "el4 (perspective4 tan_sample (Fin 1) (Fin 1) (Fin (2 ^ 127)) (Fin 1)) 0 0
       = Fin (3838811 / 2097152)"
    unfolding perspective4_def Let_def top_at_big right_at_big
    by (simp only: mat4_def mat4_at.simps vec4_at.simps quotient_at_big) simp
  have b: "el4 (perspective6 (fp_neg (Fin (9165435 * 2 ^ 103))) (Fin (9165435 * 2 ^ 103))
                        (fp_neg (Fin (9165435 * 2 ^ 103))) (Fin (9165435 * 2 ^ 103))
                        (Fin (2 ^ 127)) (Fin 1)) 0 0 = PInf"
    unfolding perspective6_def double_at_big width_at_big
    by (simp add: mat4_def)
  show ?thesis
    using z top_at_big right_at_big float_2_127 a b by blast
qed

text \<open>
  Claim C2, amended. Let \<open>t\<close> and \<open>r\<close> be the bounds as the four-argument constructor
  computes them: \<open>t\<close> the \<^verbatim>\<open>GLfloat\<close> value of \<^verbatim>\<open>n * tan(v / 2)\<close> and \<open>r\<close> that of
  \<^verbatim>\<open>t * a\<close>. Whenever both are finite and non-zero (the frustum has a width and a
  height at the near plane) and \<open>n\<close>, \<open>t\<close> and \<open>r\<close> are below \<open>2^127\<close> in magnitude (doubling
  them does not overflow), the two constructors give the same matrix, entry by entry,
  for every far distance \<open>f\<close>; the entries \<open>[0][0]\<close> and \<open>[1][1]\<close> are not NaN.
\<close>

theorem perspective_forms_agree:
  assumes "narrow (dmul (Fin n) (fp_tan tan_lib (fdiv (Fin v) (Fin 2)))) = Fin t"
      and "fmul (Fin t) (Fin a) = Fin r"
      and "t \<noteq> 0" and "r \<noteq> 0"
      and "is_float n"
      and "\<bar>n\<bar> < 2 ^ 127" and "\<bar>t\<bar> < 2 ^ 127" and "\<bar>r\<bar> < 2 ^ 127"
  shows "perspective4 tan_lib (Fin v) (Fin a) (Fin n) (Fin f) =
           perspective6 (fp_neg (Fin r)) (Fin r) (fp_neg (Fin t)) (Fin t) (Fin n) (Fin f)
         \<and> el4 (perspective4 tan_lib (Fin v) (Fin a) (Fin n) (Fin f)) 0 0 \<noteq> NaN
         \<and> el4 (perspective4 tan_lib (Fin v) (Fin a) (Fin n) (Fin f)) 1 1 \<noteq> NaN"
proof -
  have ft: "is_float t"
    using assms(1) by (rule is_float_narrow)
  have fr: "is_float r"
    using assms(2) by (intro is_float_to_float [of "t * a"]) simp
  have nn: "fadd (Fin n) (Fin n) = Fin (2 * n)"
    using assms(5,6) by (rule fadd_self)
  have rl: "fsub (Fin r) (fp_neg (Fin r)) = Fin (2 * r)"
    using fr assms(8) by (rule fsub_neg_self)
  have tb: "fsub (Fin t) (fp_neg (Fin t)) = Fin (2 * t)"
    using ft assms(7) by (rule fsub_neg_self)
  have q1: "fdiv (Fin (2 * n)) (Fin (2 * r)) = fdiv (Fin n) (Fin r)"
    using assms(4) by simp
  have q2: "fdiv (Fin (2 * n)) (Fin (2 * t)) = fdiv (Fin n) (Fin t)"
    using assms(3) by simp
  have z1: "fdiv (fadd (Fin r) (fp_neg (Fin r))) (Fin (2 * r)) = Fin 0"
    using assms(4) by simp
  have z2: "fdiv (fadd (Fin t) (fp_neg (Fin t))) (Fin (2 * t)) = Fin 0"
    using assms(3) by simp
  show ?thesis
    unfolding perspective4_def perspective6_def Let_def assms(1) assms(2) nn rl tb q1 q2 z1 z2
    using assms(3,4) by (simp add: mat4_def)
qed

text \<open>A field of view of 1 radian, aspect ratio 2, near distance 1 and far distance 100.\<close>

theorem perspective_forms_agree_witness:
  "narrow (dmul (Fin 1) (fp_tan tan_sample (fdiv (Fin 1) (Fin 2)))) = Fin (9165435 / 2 ^ 24)
   \<and> fmul (Fin (9165435 / 2 ^ 24)) (Fin 2) = Fin (9165435 / 2 ^ 23)
   \<and> is_float 1
   \<and> perspective4 tan_sample (Fin 1) (Fin 2) (Fin 1) (Fin 100) =
       perspective6 (fp_neg (Fin (9165435 / 2 ^ 23))) (Fin (9165435 / 2 ^ 23))
                    (fp_neg (Fin (9165435 / 2 ^ 24))) (Fin (9165435 / 2 ^ 24)) (Fin 1) (Fin 100)"
proof -
  have x: "fmul (Fin (9165435 / 2 ^ 24)) (Fin 2) = Fin (9165435 / 2 ^ 23)"
    using to_float_dyadic [of 9165435 "- 23"] by simp
  have one: "is_float 1"
    using to_float_dyadic [of 1 0] by (intro is_float_to_float [of 1]) simp
  show ?thesis
    using perspective_forms_agree [OF top_at_1 x _ _ one, of 100] top_at_1 x one
    by simp
qed

subsection \<open>Angle conversion\<close>

text \<open>
  The two constants as \<^verbatim>\<open>double\<close> values, the conversions at 180 degrees, at 1 radian,
  at the least positive \<^verbatim>\<open>GLfloat\<close> and at \<open>2^127\<close>, and the error of a product that is
  rounded to \<^verbatim>\<open>double\<close> and then to \<^verbatim>\<open>GLfloat\<close>.
\<close>

lemma round53_rad: "round_to 53 (- 1022) 0.01745329 = 5030568341784909 / 2 ^ 58"
  using round_to_eval [of "- 6" "0.01745329" "- 1022" 53]
  by (simp add: round_even_def frac_def)

lemma round53_deg: "round_to 53 (- 1022) 57.2957795 = 8063664100190691 / 2 ^ 47"
  using round_to_eval [of 5 "57.2957795" "- 1022" 53]
  by (simp add: round_even_def frac_def)

lemma double_rad: "to_double 0.01745329 = Fin (5030568341784909 / 2 ^ 58)"
  unfolding to_double_def fp_round_def round53_rad by (simp add: Let_def)

lemma double_deg: "to_double 57.2957795 = Fin (8063664100190691 / 2 ^ 47)"
  unfolding to_double_def fp_round_def round53_deg by (simp add: Let_def)

lemma to_radians_180: "to_radians (Fin 180) = Fin (13176793 / 4194304)"
proof -
  have "dmul (Fin 180) (to_double 0.01745329) = Fin (1768559182658757 / 562949953421312)"
    unfolding double_rad
    by (simp, rule to_double_eval [of 1]) (simp_all add: round_even_def frac_def)
  moreover have "to_float (1768559182658757 / 562949953421312) = Fin (13176793 / 4194304)"
    by (rule to_float_eval [of 1]) (simp_all add: round_even_def frac_def)
  ultimately show ?thesis
    by (simp add: to_radians_def)
qed

lemma to_degrees_1: "to_degrees (Fin 1) = Fin (15019745 / 262144)"
proof -
  have "dmul (Fin 1) (to_double 57.2957795) = Fin (8063664100190691 / 2 ^ 47)"
    unfolding double_deg
    by (simp, rule to_double_eval [of 5]) (simp_all add: round_even_def frac_def)
  moreover have "to_float (8063664100190691 / 2 ^ 47) = Fin (15019745 / 262144)"
    by (rule to_float_eval [of 5]) (simp_all add: round_even_def frac_def)
  ultimately show ?thesis
    by (simp add: to_degrees_def)
qed

lemma to_radians_tiny: "to_radians (Fin (2 powi (- 149))) = Fin 0"
proof -
  have "dmul (Fin (2 powi (- 149))) (to_double 0.01745329)
          = Fin (5030568341784909 * 2 powi (- 207))"
  proof -
    have "round_to 53 (- 1022) (of_int 5030568341784909 * 2 powi (- 207))
            = of_int 5030568341784909 * 2 powi (- 207)"
      by (rule round_to_dyadic) simp_all
    then show ?thesis
      unfolding double_rad
      by (simp add: to_double_def fp_round_def Let_def power_int_minus field_simps)
  qed
  moreover have "round_to 24 (- 126) (5030568341784909 * 2 powi (- 207)) = 0"
    by (rule round_to_tiny) (simp add: power_int_minus field_simps)
  ultimately show ?thesis
    by (simp add: to_radians_def to_float_def fp_round_def)
qed

lemma to_degrees_huge: "to_degrees (Fin (2 ^ 127)) = PInf"
proof -
  have "dmul (Fin (2 ^ 127)) (to_double 57.2957795)
          = Fin (8063664100190691 * 2 ^ 80)"
  proof -
    have "round_to 53 (- 1022) (of_int 8063664100190691 * 2 powi 80)
            = of_int 8063664100190691 * 2 powi 80"
      by (rule round_to_dyadic) simp_all
    then show ?thesis
      unfolding double_deg
      by (simp add: to_double_def fp_round_def Let_def)
  qed
  moreover have "round_to 24 (- 126) (8063664100190691 * 2 ^ 80) = 15019745 * 2 ^ 109"
    using round_to_eval [of 132 "8063664100190691 * 2 ^ 80" "- 126" 24]
    by (simp add: round_even_def frac_def)
  ultimately show ?thesis
    by (simp add: to_degrees_def to_float_def fp_round_def)
qed

lemma abs_near:
  fixes a b e :: real
  assumes "\<bar>a - b\<bar> \<le> e"
  shows "\<bar>a\<bar> \<le> \<bar>b\<bar> + e" and "\<bar>b\<bar> - e \<le> \<bar>a\<bar>"
  using assms by linarith+

lemma chain_lower:
  fixes u X Pa :: real
  assumes "1 / 2 ^ 125 \<le> u" and "u - u / 2 ^ 53 \<le> X" and "X - X / 2 ^ 53 \<le> Pa"
  shows "1 / 2 ^ 126 \<le> X" and "1 / 2 ^ 126 \<le> Pa"
  using assms by simp_all

lemma chain_upper:
  fixes u X Pa Ra :: real
  assumes "u \<le> 2 ^ 127" and "X \<le> u + u / 2 ^ 53" and "Pa \<le> X + X / 2 ^ 53"
      and "Ra \<le> Pa + Pa / 2 ^ 24"
  shows "Pa < 2 ^ 1024" and "Ra < 2 ^ 128"
  using assms by simp_all

lemma chain_error:
  fixes u X Pa :: real
  assumes "0 \<le> u" and "X \<le> u + u / 2 ^ 53" and "Pa \<le> X + X / 2 ^ 53"
  shows "Pa / 2 ^ 24 + X / 2 ^ 53 + u / 2 ^ 53 \<le> u / 2 ^ 23"
  using assms by simp

lemma scaled_in_double:
  assumes c: "2 powi (- 1022) \<le> \<bar>c\<bar>" and c': "\<bar>c\<bar> \<le> 2 ^ 1000"
      and lo: "2 powi (- 125) \<le> \<bar>d * c\<bar>" and hi: "\<bar>d * c\<bar> \<le> 2 ^ 127"
  shows "\<exists>x. narrow (dmul (Fin d) (to_double c)) = Fin x
             \<and> \<bar>x - d * c\<bar> \<le> \<bar>d * c\<bar> / 2 ^ 23"
proof -
  define C where "C = round_to 53 (- 1022) c"
  define P where "P = round_to 53 (- 1022) (d * C)"
  define R where "R = round_to 24 (- 126) P"
  define u where "u = \<bar>d * c\<bar>"
  define X where "X = \<bar>d * C\<bar>"
  have eC: "\<bar>C - c\<bar> \<le> \<bar>c\<bar> / 2 ^ 53"
    unfolding C_def using c by (rule round_to_rel_error)
  have "\<bar>C\<bar> \<le> \<bar>c\<bar> + \<bar>c\<bar> / 2 ^ 53"
    using eC by (rule abs_near)
  also have "\<dots> \<le> 2 ^ 1000 + 2 ^ 1000 / 2 ^ 53"
    using c' by (intro add_mono divide_right_mono) simp_all
  also have "\<dots> < 2 ^ 1024"
    by simp
  finally have C1024: "\<bar>C\<bar> < 2 ^ 1024" .
  have dC: "to_double c = Fin C"
    using C1024 by (auto simp add: to_double_def fp_round_def Let_def C_def abs_less_iff)
  have "\<bar>d * C - d * c\<bar> = \<bar>d\<bar> * \<bar>C - c\<bar>"
    by (simp add: abs_mult right_diff_distrib [symmetric])
  also have "\<dots> \<le> \<bar>d\<bar> * (\<bar>c\<bar> / 2 ^ 53)"
    using eC by (intro mult_left_mono) simp_all
  also have "\<dots> = u / 2 ^ 53"
    by (simp add: u_def abs_mult)
  finally have ex: "\<bar>d * C - d * c\<bar> \<le> u / 2 ^ 53" .
  have u0: "0 \<le> u" by (simp add: u_def)
  have ulo: "1 / 2 ^ 125 \<le> u"
    using lo by (simp add: u_def power_int_minus divide_simps)
  have uhi: "u \<le> 2 ^ 127"
    using hi by (simp add: u_def)
  have xhi: "X \<le> u + u / 2 ^ 53" and xlo: "u - u / 2 ^ 53 \<le> X"
    using abs_near [OF ex] by (simp_all add: X_def u_def)
  have "1 / 2 ^ 126 \<le> X"
    using ulo xlo by (rule chain_lower(1) [where Pa = "X - X / 2 ^ 53"]) simp
  moreover have "2 powi (- 1022) \<le> (1 / 2 ^ 126 :: real)"
    by (simp add: power_int_minus divide_simps)
  ultimately have "2 powi (- 1022) \<le> \<bar>d * C\<bar>"
    unfolding X_def by (rule order_trans [rotated])
  then have eP: "\<bar>P - d * C\<bar> \<le> X / 2 ^ 53"
    unfolding P_def X_def by (rule round_to_rel_error)
  have Phi: "\<bar>P\<bar> \<le> X + X / 2 ^ 53" and Plo: "X - X / 2 ^ 53 \<le> \<bar>P\<bar>"
    using abs_near [OF eP] by (simp_all add: X_def)
  have "1 / 2 ^ 126 \<le> \<bar>P\<bar>"
    using ulo xlo Plo by (rule chain_lower(2))
  then have "2 powi (- 126) \<le> \<bar>P\<bar>"
    by (simp add: power_int_minus divide_simps)
  then have eR: "\<bar>R - P\<bar> \<le> \<bar>P\<bar> / 2 ^ 24"
    unfolding R_def by (rule round_to_rel_error)
  have Rhi: "\<bar>R\<bar> \<le> \<bar>P\<bar> + \<bar>P\<bar> / 2 ^ 24"
    using eR by (rule abs_near)
  have "\<bar>P\<bar> < 2 ^ 1024"
    using uhi xhi Phi Rhi by (rule chain_upper(1))
  then have dP: "to_double (d * C) = Fin P"
    by (auto simp add: to_double_def fp_round_def Let_def P_def abs_less_iff)
  have "\<bar>R\<bar> < 2 ^ 128"
    using uhi xhi Phi Rhi by (rule chain_upper(2))
  then have nR: "to_float P = Fin R"
    by (auto simp add: to_float_def fp_round_def Let_def R_def abs_less_iff)
  have "\<bar>R - d * c\<bar> \<le> \<bar>R - P\<bar> + \<bar>P - d * C\<bar> + \<bar>d * C - d * c\<bar>"
    by linarith
  also have "\<dots> \<le> \<bar>P\<bar> / 2 ^ 24 + X / 2 ^ 53 + u / 2 ^ 53"
    using eR eP ex by (intro add_mono)
  also have "\<dots> \<le> u / 2 ^ 23"
    using u0 xhi Phi by (rule chain_error)
  finally have "\<bar>R - d * c\<bar> \<le> \<bar>d * c\<bar> / 2 ^ 23"
    by (simp add: u_def)
  moreover have "narrow (dmul (Fin d) (to_double c)) = Fin R"
    by (simp add: dC dP nR)
  ultimately show ?thesis by blast
qed

lemma scale_bounds:
  fixes d c lo hi cl ch :: real
  assumes "lo \<le> \<bar>d\<bar>" and "\<bar>d\<bar> \<le> hi" and "cl \<le> c" and "c \<le> ch" and "0 \<le> lo" and "0 \<le> cl"
  shows "lo * cl \<le> \<bar>d * c\<bar>" and "\<bar>d * c\<bar> \<le> hi * ch"
proof -
  have c0: "0 \<le> c"
    using assms(3,6) by simp
  then have e: "\<bar>d * c\<bar> = \<bar>d\<bar> * c"
    by (simp add: abs_mult)
  show "lo * cl \<le> \<bar>d * c\<bar>"
    unfolding e using assms by (intro mult_mono) simp_all
  show "\<bar>d * c\<bar> \<le> hi * ch"
    unfolding e using assms c0 by (intro mult_mono) simp_all
qed

text \<open>
  Claim C8: \<open>to_radians d\<close> is \<open>d\<close> scaled exactly by \<open>pi / 180\<close> and \<open>to_degrees r\<close> is
  \<open>r\<close> scaled exactly by \<open>180 / pi\<close>. The source multiplies by the decimal constants
  0.01745329 and 57.2957795 and rounds the product to \<^verbatim>\<open>GLfloat\<close>. Each conversion
  fails the claim: the least positive \<^verbatim>\<open>GLfloat\<close>, \<open>2^-149\<close> degrees, converts to 0
  radians, and \<open>2^127\<close> radians convert to an infinite number of degrees. At ordinary
  angles the results are the \<^verbatim>\<open>GLfloat\<close> values \<open>13176793 / 2^22\<close> for 180 degrees and
  \<open>15019745 / 2^18\<close> for 1 radian, whose product is not 180, so they are not both the
  exact \<open>pi\<close> and \<open>180 / pi\<close>.
\<close>

theorem angle_conversion_not_exact:
  "to_radians (Fin (2 powi (- 149))) = Fin 0
   \<and> to_radians (Fin (2 powi (- 149))) \<noteq> Fin (2 powi (- 149) * (pi / 180))
   \<and> to_degrees (Fin (2 ^ 127)) = PInf
   \<and> to_degrees (Fin (2 ^ 127)) \<noteq> Fin (2 ^ 127 * (180 / pi))
   \<and> to_radians (Fin 180) = Fin (13176793 / 4194304)
   \<and> to_degrees (Fin 1) = Fin (15019745 / 262144)
   \<and> \<not> (to_radians (Fin 180) = Fin (180 * (pi / 180))
         \<and> to_degrees (Fin 1) = Fin (1 * (180 / pi)))"
proof -
  have tiny: "to_radians (Fin (2 powi (- 149))) \<noteq> Fin (2 powi (- 149) * (pi / 180))"
    unfolding to_radians_tiny by simp
  have huge: "to_degrees (Fin (2 ^ 127)) \<noteq> Fin (2 ^ 127 * (180 / pi))"
    unfolding to_degrees_huge by simp
  have both: "\<not> (to_radians (Fin 180) = Fin (180 * (pi / 180))
         \<and> to_degrees (Fin 1) = Fin (1 * (180 / pi)))"
  proof
    assume "to_radians (Fin 180) = Fin (180 * (pi / 180))
         \<and> to_degrees (Fin 1) = Fin (1 * (180 / pi))"
    then have p: "pi = 13176793 / 4194304" and q: "180 / pi = 15019745 / 262144"
      unfolding to_radians_180 to_degrees_1 by simp_all
    from q show False
      unfolding p by simp
  qed
  from to_radians_tiny tiny to_degrees_huge huge to_radians_180 to_degrees_1 both
  show ?thesis
    by blast
qed

text \<open>
  Claim C8, amended: \<open>to_radians d\<close> is the product of \<open>d\<close> and the \<^verbatim>\<open>double\<close> nearest
  to 0.01745329, which is \<open>5030568341784909 / 2^58\<close>, rounded to \<^verbatim>\<open>double\<close> and then to
  \<^verbatim>\<open>GLfloat\<close>; \<open>to_degrees r\<close> likewise with 57.2957795, whose nearest \<^verbatim>\<open>double\<close> is
  \<open>8063664100190691 / 2^47\<close>. For a finite \<open>d\<close> of magnitude at least \<open>2^-119\<close> the
  result is finite and within the relative error \<open>2^-23\<close> of \<open>d * 0.01745329\<close>; for a
  finite \<open>r\<close> of magnitude from \<open>2^-126\<close> to \<open>2^121\<close> the result is finite and within the
  relative error \<open>2^-23\<close> of \<open>r * 57.2957795\<close>.
\<close>

theorem angle_conversion_rounded:
  "to_radians (Fin d) = narrow (dmul (Fin d) (Fin (5030568341784909 / 2 ^ 58)))
   \<and> to_degrees (Fin r) = narrow (dmul (Fin r) (Fin (8063664100190691 / 2 ^ 47)))
   \<and> (2 powi (- 119) \<le> \<bar>d\<bar> \<and> \<bar>d\<bar> < 2 ^ 128 \<longrightarrow>
        (\<exists>x. to_radians (Fin d) = Fin x
             \<and> \<bar>x - d * 0.01745329\<bar> \<le> \<bar>d * 0.01745329\<bar> / 2 ^ 23))
   \<and> (2 powi (- 126) \<le> \<bar>r\<bar> \<and> \<bar>r\<bar> \<le> 2 ^ 121 \<longrightarrow>
        (\<exists>x. to_degrees (Fin r) = Fin x
             \<and> \<bar>x - r * 57.2957795\<bar> \<le> \<bar>r * 57.2957795\<bar> / 2 ^ 23))"
proof (intro conjI impI)
  show "to_radians (Fin d) = narrow (dmul (Fin d) (Fin (5030568341784909 / 2 ^ 58)))"
    unfolding to_radians_def double_rad ..
  show "to_degrees (Fin r) = narrow (dmul (Fin r) (Fin (8063664100190691 / 2 ^ 47)))"
    unfolding to_degrees_def double_deg ..
next
  assume h: "2 powi (- 119) \<le> \<bar>d\<bar> \<and> \<bar>d\<bar> < 2 ^ 128"
  have c1: "2 powi (- 1022) \<le> \<bar>0.01745329 :: real\<bar>"
    by (simp add: power_int_minus divide_simps)
  have c2: "\<bar>0.01745329 :: real\<bar> \<le> 2 ^ 1000"
    by simp
  have "2 powi (- 119) * (1 / 64) \<le> \<bar>d * 0.01745329\<bar>"
    using h by (intro scale_bounds(1) [where hi = "2 ^ 128" and ch = 1]) simp_all
  moreover have "(2::real) powi (- 125) = 2 powi (- 119) * (1 / 64)"
    by (simp add: power_int_minus)
  ultimately have lo: "2 powi (- 125) \<le> \<bar>d * 0.01745329\<bar>"
    by simp
  have "\<bar>d * 0.01745329\<bar> \<le> 2 ^ 128 * (1 / 2)"
    using h by (intro scale_bounds(2) [where lo = 0 and cl = 0]) simp_all
  then have hi: "\<bar>d * 0.01745329\<bar> \<le> 2 ^ 127"
    by simp
  show "\<exists>x. to_radians (Fin d) = Fin x
             \<and> \<bar>x - d * 0.01745329\<bar> \<le> \<bar>d * 0.01745329\<bar> / 2 ^ 23"
    unfolding to_radians_def using c1 c2 lo hi by (rule scaled_in_double)
next
  assume h: "2 powi (- 126) \<le> \<bar>r\<bar> \<and> \<bar>r\<bar> \<le> 2 ^ 121"
  have c1: "2 powi (- 1022) \<le> \<bar>57.2957795 :: real\<bar>"
    by (simp add: power_int_minus divide_simps)
  have c2: "\<bar>57.2957795 :: real\<bar> \<le> 2 ^ 1000"
    by simp
  have "2 powi (- 126) * 2 \<le> \<bar>r * 57.2957795\<bar>"
    using h by (intro scale_bounds(1) [where hi = "2 ^ 121" and ch = 64]) simp_all
  moreover have "(2::real) powi (- 125) = 2 powi (- 126) * 2"
    by (simp add: power_int_minus)
  ultimately have lo: "2 powi (- 125) \<le> \<bar>r * 57.2957795\<bar>"
    by simp
  have "\<bar>r * 57.2957795\<bar> \<le> 2 ^ 121 * 64"
    using h by (intro scale_bounds(2) [where lo = 0 and cl = 0]) simp_all
  then have hi: "\<bar>r * 57.2957795\<bar> \<le> 2 ^ 127"
    by simp
  show "\<exists>x. to_degrees (Fin r) = Fin x
             \<and> \<bar>x - r * 57.2957795\<bar> \<le> \<bar>r * 57.2957795\<bar> / 2 ^ 23"
    unfolding to_degrees_def using c1 c2 lo hi by (rule scaled_in_double)
qed

text \<open>180 degrees and 1 radian.\<close>

theorem angle_conversion_rounded_witness:
  "to_radians (Fin 180) = Fin (13176793 / 4194304)
   \<and> \<bar>13176793 / 4194304 - 180 * 0.01745329\<bar> \<le> \<bar>180 * 0.01745329 :: real\<bar> / 2 ^ 23
   \<and> to_degrees (Fin 1) = Fin (15019745 / 262144)
   \<and> \<bar>15019745 / 262144 - 1 * 57.2957795\<bar> \<le> \<bar>1 * 57.2957795 :: real\<bar> / 2 ^ 23"
proof -
  have a: "2 powi (- 119) \<le> \<bar>180 :: real\<bar> \<and> \<bar>180 :: real\<bar> < 2 ^ 128"
    by (simp add: power_int_minus divide_simps)
  have b: "2 powi (- 126) \<le> \<bar>1 :: real\<bar> \<and> \<bar>1 :: real\<bar> \<le> 2 ^ 121"
    by (simp add: power_int_minus divide_simps)
  from angle_conversion_rounded [of 180 1] a b
  obtain x y where "to_radians (Fin 180) = Fin x"
      and "\<bar>x - 180 * 0.01745329\<bar> \<le> \<bar>180 * 0.01745329\<bar> / 2 ^ 23"
      and "to_degrees (Fin 1) = Fin y"
      and "\<bar>y - 1 * 57.2957795\<bar> \<le> \<bar>1 * 57.2957795\<bar> / 2 ^ 23"
    by blast
  then show ?thesis
    unfolding to_radians_180 to_degrees_1 by simp
qed

section \<open>Properties of the shader build pipeline\<close>

subsection \<open>What each function appends to the history\<close>

lemma emitted_append [simp]: "emitted h (h @ t) = t"
  by (simp add: emitted_def)

lemma read_shader_source_emits:
  assumes "read_shader_source env name h = (p, h')"
  shows "\<exists>t. h' = h @ t \<and> \<not> list_ex creates_shader t \<and> \<not> list_ex compiles_shader t
            \<and> \<not> list_ex creates_program t \<and> \<not> list_ex links_program t"
  using assms
  by (auto simp add: read_shader_source_def Let_def split: if_splits prod.splits)

lemma report_shader_status_emits:
  assumes "report_shader_status env shader h = (b, h')"
  shows "\<exists>t. h' = h @ t \<and> \<not> list_ex creates_shader t
            \<and> \<not> list_ex creates_program t \<and> \<not> list_ex links_program t"
  using assms
  by (auto simp add: report_shader_status_def Let_def split: if_splits prod.splits)

lemma report_program_status_emits:
  assumes "report_program_status env program h = (b, h')"
  shows "\<exists>t. h' = h @ t \<and> \<not> list_ex creates_shader t \<and> \<not> list_ex compiles_shader t
            \<and> \<not> list_ex creates_program t \<and> \<not> list_ex links_program t"
  using assms
  by (auto simp add: report_program_status_def Let_def split: if_splits prod.splits)

lemma init_shader_emits:
  assumes "init_shader env ty src h = (s, h')"
  shows "\<exists>t. h' = h @ t \<and> list_ex creates_shader t
            \<and> \<not> list_ex creates_program t \<and> \<not> list_ex links_program t"
  using assms
  by (auto simp add: init_shader_def Let_def split: if_splits prod.splits
           dest!: report_shader_status_emits)

lemma init_program_shaders_emits:
  assumes "init_program_shaders env vs fs h = (p, h')"
  shows "\<exists>t. h' = h @ t \<and> \<not> list_ex creates_shader t \<and> \<not> list_ex compiles_shader t
            \<and> list_ex creates_program t
            \<and> (list_ex links_program t \<longleftrightarrow> glCreateProgram_ret env h \<noteq> 0)"
  using assms
  by (auto simp add: init_program_shaders_def Let_def split: if_splits prod.splits
           dest!: report_program_status_emits)

subsection \<open>What the builders return\<close>

text \<open>
  The status helpers return whether the status the driver wrote is non-zero;
  \<^verbatim>\<open>init_shader\<close> and the two-handle \<^verbatim>\<open>init_program\<close> return the handle the driver
  created when it is non-zero and its status is non-zero, and 0 otherwise.
\<close>

lemma report_shader_status_result:
  "fst (report_shader_status env shader h)
     \<longleftrightarrow> glGetShaderiv_ret env h shader GL_COMPILE_STATUS \<noteq> 0"
  by (simp add: report_shader_status_def Let_def)

lemma report_program_status_result:
  "fst (report_program_status env program h)
     \<longleftrightarrow> glGetProgramiv_ret env h program GL_LINK_STATUS \<noteq> 0"
  by (simp add: report_program_status_def Let_def)

lemma init_shader_result:
  assumes "created = glCreateShader_ret env h ty"
      and "status = glGetShaderiv_ret env
             (h @ [GlCreateShader ty created, GlShaderSource created src,
                   GlCompileShader created]) created GL_COMPILE_STATUS"
  shows "fst (init_shader env ty src h) = (if created \<noteq> 0 \<and> status \<noteq> 0 then created else 0)"
  using assms report_shader_status_result [of env created
          "h @ [GlCreateShader ty created, GlShaderSource created src, GlCompileShader created]"]
  by (auto simp add: init_shader_def Let_def split: prod.splits)

lemma init_program_shaders_result:
  assumes "created = glCreateProgram_ret env h"
      and "status = glGetProgramiv_ret env
             (h @ [GlCreateProgram created, GlAttachShader created vs,
                   GlAttachShader created fs, GlLinkProgram created]) created GL_LINK_STATUS"
  shows "fst (init_program_shaders env vs fs h)
           = (if created \<noteq> 0 \<and> status \<noteq> 0 then created else 0)"
  using assms report_program_status_result [of env created
          "h @ [GlCreateProgram created, GlAttachShader created vs,
                GlAttachShader created fs, GlLinkProgram created]"]
  by (auto simp add: init_program_shaders_def Let_def split: prod.splits)

subsection \<open>The size of the log buffer\<close>

text \<open>
  For a length \<open>n\<close> from 0 to \<open>2^31 - 2\<close> the size \<^verbatim>\<open>n + 1\<close> passed to \<^verbatim>\<open>calloc\<close> is
  \<open>n + 1\<close> bytes.
\<close>

lemma log_buffer_size:
  fixes n :: GLint
  assumes "0 \<le> sint n" and "sint n < 2 ^ 31 - 1"
  shows "uint (scast (n + 1) :: size_t) = sint n + 1"
proof -
  have "sint (n + 1) = signed_take_bit 31 (sint n + 1)"
    by (simp add: sint_word_ariths)
  also have "\<dots> = sint n + 1"
    using assms by (intro signed_take_bit_int_eq_self) simp_all
  finally have s: "sint (n + 1) = sint n + 1" .
  have "uint (scast (n + 1) :: size_t) = take_bit 64 (sint n + 1)"
    by (simp only: scast_eq uint_word_of_int_eq s) simp
  also have "\<dots> = sint n + 1"
    using assms by (intro take_bit_int_eq_self) simp_all
  finally show ?thesis .
qed

subsection \<open>The status reports\<close>

text \<open>
  Claim C7: the two status helpers obey one contract. Each queries a status flag and an
  info-log length \<open>n\<close>; on a false status it allocates \<open>n + 1\<close> bytes, retrieves the log
  into them, prints it after its fixed label, frees the buffer and returns false; on a
  true status it returns true without allocating. As stated this fails where the
  allocation does not succeed: the source guards the retrieval, the print and the release
  by the result of \<^verbatim>\<open>calloc\<close>, and with a false status and no memory it returns false
  having retrieved, printed and freed nothing.
\<close>

theorem report_status_silent_without_memory:
  "report_shader_status env_no_memory 1 [] =
     (False, [GlGetShaderiv 1 GL_COMPILE_STATUS 0, GlGetShaderiv 1 GL_INFO_LOG_LENGTH 6,
              Calloc 7 False])
   \<and> \<not> list_ex is_print (snd (report_shader_status env_no_memory 1 []))
   \<and> report_program_status env_no_memory 3 [] =
     (False, [GlGetProgramiv 3 GL_LINK_STATUS 0, GlGetProgramiv 3 GL_INFO_LOG_LENGTH 6,
              Calloc 7 False])
   \<and> \<not> list_ex is_print (snd (report_program_status env_no_memory 3 []))"
  by (simp add: report_shader_status_def report_program_status_def env_no_memory_def
        env_compile_error_def env_ok_def Let_def)

text \<open>
  Claim C7, amended: each helper queries the status flag \<open>s\<close> and then the info-log
  length \<open>n\<close>. On a true status it returns true after these two queries, without
  allocating. On a false status it requests the \<^verbatim>\<open>size_t\<close> conversion of the
  \<^verbatim>\<open>GLint\<close> sum \<^verbatim>\<open>n + 1\<close>, which is \<open>n + 1\<close> bytes for every length from 0 to
  \<open>2^31 - 2\<close>; when the allocation succeeds it retrieves the log, prints it after the
  label (\<open>Shader Error:\<close> or \<open>Program Error:\<close> and a newline), frees the buffer and
  returns false; when the allocation fails it returns false at once. The histories are
  given in full, so nothing else happens.
\<close>

theorem report_status_contract:
  assumes "s = glGetShaderiv_ret env h shader GL_COMPILE_STATUS"
      and "h1 = h @ [GlGetShaderiv shader GL_COMPILE_STATUS s]"
      and "n = glGetShaderiv_ret env h1 shader GL_INFO_LOG_LENGTH"
      and "h2 = h1 @ [GlGetShaderiv shader GL_INFO_LOG_LENGTH n]"
      and "bytes = (scast (n + 1) :: size_t)"
      and "info = glGetShaderInfoLog_ret env (h2 @ [Calloc bytes True]) shader n"
      and "ps = glGetProgramiv_ret env g program GL_LINK_STATUS"
      and "g1 = g @ [GlGetProgramiv program GL_LINK_STATUS ps]"
      and "pn = glGetProgramiv_ret env g1 program GL_INFO_LOG_LENGTH"
      and "g2 = g1 @ [GlGetProgramiv program GL_INFO_LOG_LENGTH pn]"
      and "pbytes = (scast (pn + 1) :: size_t)"
      and "pinfo = glGetProgramInfoLog_ret env (g2 @ [Calloc pbytes True]) program pn"
  shows "(s \<noteq> 0 \<longrightarrow> report_shader_status env shader h = (True, h2))
       \<and> (s = 0 \<and> calloc_ret env h2 bytes \<longrightarrow>
            report_shader_status env shader h =
              (False, h2 @ [Calloc bytes True, GlGetShaderInfoLog shader n info,
                            Fprintf (''Shader Error:'' @ [CHR 0x0A] @ info),
                            Free (Some info)]))
       \<and> (s = 0 \<and> \<not> calloc_ret env h2 bytes \<longrightarrow>
            report_shader_status env shader h = (False, h2 @ [Calloc bytes False]))
       \<and> (0 \<le> sint n \<and> sint n < 2 ^ 31 - 1 \<longrightarrow> uint bytes = sint n + 1)
       \<and> (ps \<noteq> 0 \<longrightarrow> report_program_status env program g = (True, g2))
       \<and> (ps = 0 \<and> calloc_ret env g2 pbytes \<longrightarrow>
            report_program_status env program g =
              (False, g2 @ [Calloc pbytes True, GlGetProgramInfoLog program pn pinfo,
                            Fprintf (''Program Error:'' @ [CHR 0x0A] @ pinfo),
                            Free (Some pinfo)]))
       \<and> (ps = 0 \<and> \<not> calloc_ret env g2 pbytes \<longrightarrow>
            report_program_status env program g = (False, g2 @ [Calloc pbytes False]))
       \<and> (0 \<le> sint pn \<and> sint pn < 2 ^ 31 - 1 \<longrightarrow> uint pbytes = sint pn + 1)"
  using assms log_buffer_size [of n] log_buffer_size [of pn]
  by (simp add: report_shader_status_def report_program_status_def Let_def)

theorem report_status_contract_witness:
  "report_shader_status env_compile_error 1 [] =
     (False, [GlGetShaderiv 1 GL_COMPILE_STATUS 0, GlGetShaderiv 1 GL_INFO_LOG_LENGTH 6,
              Calloc 7 True, GlGetShaderInfoLog 1 6 ''error'',
              Fprintf (''Shader Error:'' @ [CHR 0x0A] @ ''error''), Free (Some ''error'')])
   \<and> report_program_status env_compile_error 3 [] =
     (False, [GlGetProgramiv 3 GL_LINK_STATUS 0, GlGetProgramiv 3 GL_INFO_LOG_LENGTH 6,
              Calloc 7 True, GlGetProgramInfoLog 3 6 ''error'',
              Fprintf (''Program Error:'' @ [CHR 0x0A] @ ''error''), Free (Some ''error'')])
   \<and> uint (scast (6 + 1 :: GLint) :: size_t) = 7
   \<and> report_shader_status env_ok 1 [] =
     (True, [GlGetShaderiv 1 GL_COMPILE_STATUS 1, GlGetShaderiv 1 GL_INFO_LOG_LENGTH 0])
   \<and> report_program_status env_ok 3 [] =
     (True, [GlGetProgramiv 3 GL_LINK_STATUS 1, GlGetProgramiv 3 GL_INFO_LOG_LENGTH 0])
   \<and> report_shader_status env_long_log 1 [] =
     (False, [GlGetShaderiv 1 GL_COMPILE_STATUS 0,
              GlGetShaderiv 1 GL_INFO_LOG_LENGTH 0x7FFFFFFF,
              Calloc 0xFFFFFFFF80000000 False])
   \<and> report_program_status env_long_log 3 [] =
     (False, [GlGetProgramiv 3 GL_LINK_STATUS 0,
              GlGetProgramiv 3 GL_INFO_LOG_LENGTH 0x7FFFFFFF,
              Calloc 0xFFFFFFFF80000000 False])"
proof -
  have wrap: "(scast (0x7FFFFFFF + 1 :: GLint) :: size_t) = 0xFFFFFFFF80000000"
    by (simp add: scast_eq)
  show ?thesis
    using report_status_contract [where env = env_compile_error and h = "[]" and shader = 1
              and g = "[]" and program = 3,
              OF refl refl refl refl refl refl refl refl refl refl refl refl]
          report_status_contract [where env = env_ok and h = "[]" and shader = 1
              and g = "[]" and program = 3,
              OF refl refl refl refl refl refl refl refl refl refl refl refl]
          report_status_contract [where env = env_long_log and h = "[]" and shader = 1
              and g = "[]" and program = 3,
              OF refl refl refl refl refl refl refl refl refl refl refl refl]
    by (simp add: env_long_log_def env_no_memory_def env_compile_error_def env_ok_def wrap)
qed

subsection \<open>Diagnostics on failure\<close>

text \<open>
  Claim C4: every failure path of the pipeline prints a diagnostic to the error stream
  before it returns its invalid sentinel; \<^verbatim>\<open>read_shader_source\<close> prints on each of its
  failure causes (the file cannot be opened, cannot be seeked, or is empty) and
  \<^verbatim>\<open>init_shader\<close> prints before returning 0 on every failure. As stated this fails: a
  file that opens and is empty gives the null buffer with nothing printed, and a driver
  that returns the handle 0 from \<^verbatim>\<open>glCreateShader\<close> makes \<^verbatim>\<open>init_shader\<close> return 0 with
  nothing printed.
\<close>

theorem failures_without_diagnostic:
  "read_shader_source env_empty_file ''a.vert'' [] =
     (None, [Fopen ''a.vert'' True, Fseek_end ''a.vert'' True, Ftell ''a.vert'' 0,
             Fclose ''a.vert''])
   \<and> \<not> list_ex is_print (snd (read_shader_source env_empty_file ''a.vert'' []))
   \<and> init_shader env_no_shader GL_VERTEX_SHADER ''main'' [] =
     (0, [GlCreateShader GL_VERTEX_SHADER 0])
   \<and> \<not> list_ex is_print (snd (init_shader env_no_shader GL_VERTEX_SHADER ''main'' []))"
  by (simp add: read_shader_source_def init_shader_def env_empty_file_def env_no_shader_def
        env_ok_def Let_def)

text \<open>
  Claim C4, amended. \<^verbatim>\<open>read_shader_source\<close> prints exactly when the file cannot be
  opened; then it returns the null buffer and the print is the last thing it does. When
  the file opens it prints nothing, and it returns the null buffer exactly when a seek
  fails, the position \<^verbatim>\<open>ftell\<close> gives is zero as a \<^verbatim>\<open>size_t\<close>, or the allocation fails.
  \<^verbatim>\<open>init_shader\<close> returns 0 exactly when no shader object was created or the compile
  status is false, and it prints exactly when the object was created, the compile status
  is false and the buffer for the log was allocated (a request of the \<^verbatim>\<open>size_t\<close>
  conversion of the \<^verbatim>\<open>GLint\<close> sum \<^verbatim>\<open>n + 1\<close>, \<open>n\<close> the length of the log); when no
  object was created it returns 0 having only called \<^verbatim>\<open>glCreateShader\<close>.
\<close>

theorem failure_diagnostics:
  assumes "read_shader_source env name h = (p, h')"
      and "k1 = h @ [Fopen name True]"
      and "k2 = k1 @ [Fseek_end name True]"
      and "pos = ftell_ret env k2 name"
      and "k3 = k2 @ [Ftell name pos]"
      and "k4 = k3 @ [Fseek_set name True]"
      and "init_shader env ty source g = (shader, g')"
      and "created = glCreateShader_ret env g ty"
      and "g3 = g @ [GlCreateShader ty created, GlShaderSource created source,
                     GlCompileShader created]"
      and "s = glGetShaderiv_ret env g3 created GL_COMPILE_STATUS"
      and "g4 = g3 @ [GlGetShaderiv created GL_COMPILE_STATUS s]"
      and "n = glGetShaderiv_ret env g4 created GL_INFO_LOG_LENGTH"
      and "g5 = g4 @ [GlGetShaderiv created GL_INFO_LOG_LENGTH n]"
  shows "(list_ex is_print (emitted h h') \<longleftrightarrow> \<not> fopen_ret env h name)
       \<and> (\<not> fopen_ret env h name \<longrightarrow>
            p = None \<and> emitted h h' = [Fopen name False, Fprintf (failed_to_open name)])
       \<and> (fopen_ret env h name \<longrightarrow>
            (p = None \<longleftrightarrow>
               \<not> fseek_ret env k1 name \<or> (word_of_int pos :: size_t) = 0
               \<or> \<not> fseek_ret env k3 name
               \<or> \<not> calloc_ret env k4 ((word_of_int pos :: size_t) + 1)))
       \<and> (shader = 0 \<longleftrightarrow> created = 0 \<or> s = 0)
       \<and> (list_ex is_print (emitted g g') \<longleftrightarrow>
            created \<noteq> 0 \<and> s = 0 \<and> calloc_ret env g5 (scast (n + 1)))
       \<and> (created = 0 \<longrightarrow> emitted g g' = [GlCreateShader ty 0])"
proof -
  have r: "(list_ex is_print (emitted h h') \<longleftrightarrow> \<not> fopen_ret env h name)
       \<and> (\<not> fopen_ret env h name \<longrightarrow>
            p = None \<and> emitted h h' = [Fopen name False, Fprintf (failed_to_open name)])
       \<and> (fopen_ret env h name \<longrightarrow>
            (p = None \<longleftrightarrow>
               \<not> fseek_ret env k1 name \<or> (word_of_int pos :: size_t) = 0
               \<or> \<not> fseek_ret env k3 name
               \<or> \<not> calloc_ret env k4 ((word_of_int pos :: size_t) + 1)))"
    using assms(1-6)
    by (auto simp add: read_shader_source_def Let_def split: if_splits prod.splits)
  have i: "(shader = 0 \<longleftrightarrow> created = 0 \<or> s = 0)
       \<and> (list_ex is_print (emitted g g') \<longleftrightarrow>
            created \<noteq> 0 \<and> s = 0 \<and> calloc_ret env g5 (scast (n + 1)))
       \<and> (created = 0 \<longrightarrow> emitted g g' = [GlCreateShader ty 0])"
    using assms(7-)
    by (auto simp add: init_shader_def report_shader_status_def Let_def
             split: if_splits prod.splits)
  from r i show ?thesis by simp
qed

theorem failure_diagnostics_witness:
  "read_shader_source env_no_file ''a.vert'' [] =
     (None, [Fopen ''a.vert'' False, Fprintf (failed_to_open ''a.vert'')])
   \<and> list_ex is_print (emitted [] (snd (read_shader_source env_no_file ''a.vert'' [])))
   \<and> init_shader env_no_file GL_VERTEX_SHADER ''main'' [] =
     (0, [GlCreateShader GL_VERTEX_SHADER 1, GlShaderSource 1 ''main'', GlCompileShader 1,
          GlGetShaderiv 1 GL_COMPILE_STATUS 0, GlGetShaderiv 1 GL_INFO_LOG_LENGTH 6,
          Calloc 7 True, GlGetShaderInfoLog 1 6 ''error'',
          Fprintf (''Shader Error:'' @ [CHR 0x0A] @ ''error''), Free (Some ''error''),
          GlDeleteShader 1])
   \<and> list_ex is_print (emitted [] (snd (init_shader env_no_file GL_VERTEX_SHADER ''main'' [])))"
proof -
  have a: "read_shader_source env_no_file ''a.vert'' [] =
     (None, [Fopen ''a.vert'' False, Fprintf (failed_to_open ''a.vert'')])"
    by (simp add: read_shader_source_def env_no_file_def env_compile_error_def env_ok_def)
  have b: "init_shader env_no_file GL_VERTEX_SHADER ''main'' [] =
     (0, [GlCreateShader GL_VERTEX_SHADER 1, GlShaderSource 1 ''main'', GlCompileShader 1,
          GlGetShaderiv 1 GL_COMPILE_STATUS 0, GlGetShaderiv 1 GL_INFO_LOG_LENGTH 6,
          Calloc 7 True, GlGetShaderInfoLog 1 6 ''error'',
          Fprintf (''Shader Error:'' @ [CHR 0x0A] @ ''error''), Free (Some ''error''),
          GlDeleteShader 1])"
    by (simp add: init_shader_def report_shader_status_def env_no_file_def
          env_compile_error_def env_ok_def Let_def)
  show ?thesis
    using failure_diagnostics [OF a refl refl refl refl refl b refl refl refl refl refl refl] a b
    by (simp add: env_no_file_def env_compile_error_def env_ok_def)
qed

subsection \<open>The entry point\<close>

text \<open>
  Claim C3: in the two-file entry point, shader objects are created and compiled only
  when both loads returned a buffer (a failed load for either path means no shader
  object for either stage); the link step is performed if and only if both stages
  compiled to non-zero shader handles; and on any load, compile or link failure the
  entry point returns the handle 0.

  The hypotheses name what the source names, the two buffers and the two shader
  handles, and the answers of the driver on which the outcome depends: the handle
  \<^verbatim>\<open>glCreateShader\<close> returned and the compile status it reported for each stage, the
  handle \<^verbatim>\<open>glCreateProgram\<close> returned and the link status it reported. A stage
  compiled when its shader object was created and its compile status is non-zero; the
  link succeeded when the program object was created and its link status is non-zero.
  The link step is the call of the two-handle \<^verbatim>\<open>init_program\<close>, whose first action is
  \<^verbatim>\<open>glCreateProgram\<close>: it is made exactly when both buffers and both handles are
  non-null. Within it \<^verbatim>\<open>glLinkProgram\<close> is requested exactly when, moreover, the driver
  returned a program object. The entry point returns a non-zero handle exactly when both
  loads, both compilations and the link succeeded, and the handle is then the program
  object the driver created; in every other case it returns 0.
\<close>

theorem init_program_files_gating:
  assumes "read_shader_source env vert_name h0 = (vert_source, h1)"
      and "read_shader_source env frag_name h1 = (frag_source, h2)"
      and "init_shader env GL_VERTEX_SHADER (the vert_source) h2 = (vert_shader, h3)"
      and "init_shader env GL_FRAGMENT_SHADER (the frag_source) h3 = (frag_shader, h4)"
      and "init_program_files env vert_name frag_name h0 = (program, h')"
      and "vert_created = glCreateShader_ret env h2 GL_VERTEX_SHADER"
      and "vert_status = glGetShaderiv_ret env
             (h2 @ [GlCreateShader GL_VERTEX_SHADER vert_created,
                    GlShaderSource vert_created (the vert_source),
                    GlCompileShader vert_created]) vert_created GL_COMPILE_STATUS"
      and "frag_created = glCreateShader_ret env h3 GL_FRAGMENT_SHADER"
      and "frag_status = glGetShaderiv_ret env
             (h3 @ [GlCreateShader GL_FRAGMENT_SHADER frag_created,
                    GlShaderSource frag_created (the frag_source),
                    GlCompileShader frag_created]) frag_created GL_COMPILE_STATUS"
      and "prog_created = glCreateProgram_ret env h4"
      and "link_status = glGetProgramiv_ret env
             (h4 @ [GlCreateProgram prog_created, GlAttachShader prog_created vert_shader,
                    GlAttachShader prog_created frag_shader, GlLinkProgram prog_created])
             prog_created GL_LINK_STATUS"
  shows "(list_ex creates_shader (emitted h0 h') \<longleftrightarrow>
            vert_source \<noteq> None \<and> frag_source \<noteq> None)
       \<and> (list_ex compiles_shader (emitted h0 h') \<longrightarrow>
            vert_source \<noteq> None \<and> frag_source \<noteq> None)
       \<and> (vert_shader \<noteq> 0 \<longleftrightarrow> vert_created \<noteq> 0 \<and> vert_status \<noteq> 0)
       \<and> (frag_shader \<noteq> 0 \<longleftrightarrow> frag_created \<noteq> 0 \<and> frag_status \<noteq> 0)
       \<and> (list_ex creates_program (emitted h0 h') \<longleftrightarrow>
            vert_source \<noteq> None \<and> frag_source \<noteq> None
            \<and> vert_shader \<noteq> 0 \<and> frag_shader \<noteq> 0)
       \<and> (list_ex links_program (emitted h0 h') \<longleftrightarrow>
            vert_source \<noteq> None \<and> frag_source \<noteq> None
            \<and> vert_shader \<noteq> 0 \<and> frag_shader \<noteq> 0 \<and> prog_created \<noteq> 0)
       \<and> (program \<noteq> 0 \<longleftrightarrow>
            vert_source \<noteq> None \<and> frag_source \<noteq> None
            \<and> vert_created \<noteq> 0 \<and> vert_status \<noteq> 0
            \<and> frag_created \<noteq> 0 \<and> frag_status \<noteq> 0
            \<and> prog_created \<noteq> 0 \<and> link_status \<noteq> 0)
       \<and> (vert_source = None \<or> frag_source = None
            \<or> vert_created = 0 \<or> vert_status = 0 \<or> frag_created = 0 \<or> frag_status = 0
            \<or> prog_created = 0 \<or> link_status = 0 \<longrightarrow> program = 0)
       \<and> (program \<noteq> 0 \<longrightarrow> program = prog_created)"
proof -
  obtain linked h5 where linking: "init_program_shaders env vert_shader frag_shader h4 = (linked, h5)"
    by (cases "init_program_shaders env vert_shader frag_shader h4") auto
  have vs: "vert_shader = (if vert_created \<noteq> 0 \<and> vert_status \<noteq> 0 then vert_created else 0)"
    using init_shader_result [OF assms(6,7)] assms(3) by simp
  have fs: "frag_shader = (if frag_created \<noteq> 0 \<and> frag_status \<noteq> 0 then frag_created else 0)"
    using init_shader_result [OF assms(8,9)] assms(4) by simp
  have ps: "linked = (if prog_created \<noteq> 0 \<and> link_status \<noteq> 0 then prog_created else 0)"
    using init_program_shaders_result [OF assms(10,11)] linking by simp
  have v: "vert_shader \<noteq> 0 \<longleftrightarrow> vert_created \<noteq> 0 \<and> vert_status \<noteq> 0"
    using vs by simp
  have f: "frag_shader \<noteq> 0 \<longleftrightarrow> frag_created \<noteq> 0 \<and> frag_status \<noteq> 0"
    using fs by simp
  obtain t1 where t1: "h1 = h0 @ t1" "\<not> list_ex creates_shader t1"
      "\<not> list_ex compiles_shader t1" "\<not> list_ex creates_program t1"
      "\<not> list_ex links_program t1"
    using read_shader_source_emits [OF assms(1)] by blast
  obtain t2 where t2: "h2 = h1 @ t2" "\<not> list_ex creates_shader t2"
      "\<not> list_ex compiles_shader t2" "\<not> list_ex creates_program t2"
      "\<not> list_ex links_program t2"
    using read_shader_source_emits [OF assms(2)] by blast
  obtain t3 where t3: "h3 = h2 @ t3" "list_ex creates_shader t3"
      "\<not> list_ex creates_program t3" "\<not> list_ex links_program t3"
    using init_shader_emits [OF assms(3)] by blast
  obtain t4 where t4: "h4 = h3 @ t4" "list_ex creates_shader t4"
      "\<not> list_ex creates_program t4" "\<not> list_ex links_program t4"
    using init_shader_emits [OF assms(4)] by blast
  obtain t5 where t5: "h5 = h4 @ t5" "\<not> list_ex creates_shader t5"
      "\<not> list_ex compiles_shader t5" "list_ex creates_program t5"
      "list_ex links_program t5 \<longleftrightarrow> glCreateProgram_ret env h4 \<noteq> 0"
    using init_program_shaders_emits [OF linking] by blast
  have gating: "(list_ex creates_shader (emitted h0 h') \<longleftrightarrow>
            vert_source \<noteq> None \<and> frag_source \<noteq> None)
       \<and> (list_ex compiles_shader (emitted h0 h') \<longrightarrow>
            vert_source \<noteq> None \<and> frag_source \<noteq> None)
       \<and> (list_ex creates_program (emitted h0 h') \<longleftrightarrow>
            vert_source \<noteq> None \<and> frag_source \<noteq> None
            \<and> vert_shader \<noteq> 0 \<and> frag_shader \<noteq> 0)
       \<and> (list_ex links_program (emitted h0 h') \<longleftrightarrow>
            vert_source \<noteq> None \<and> frag_source \<noteq> None
            \<and> vert_shader \<noteq> 0 \<and> frag_shader \<noteq> 0 \<and> prog_created \<noteq> 0)
       \<and> program = (if vert_source \<noteq> None \<and> frag_source \<noteq> None
                        \<and> vert_shader \<noteq> 0 \<and> frag_shader \<noteq> 0 then linked else 0)"
  proof (cases "vert_source \<noteq> None \<and> frag_source \<noteq> None")
    case False
    then have "program = 0 \<and> h' = h2 @ [Free frag_source, Free vert_source]"
      using assms(1,2,5)
      by (auto simp add: init_program_files_def split: option.splits)
    then show ?thesis
      using False t1 t2 by (auto simp add: list_ex_iff)
  next
    case True
    then obtain vt ft where src: "vert_source = Some vt" "frag_source = Some ft"
      by auto
    show ?thesis
    proof (cases "vert_shader \<noteq> 0 \<and> frag_shader \<noteq> 0")
      case both: True
      have "program = linked \<and>
          h' = h5 @ [GlDeleteShader frag_shader, GlDeleteShader vert_shader,
                     Free frag_source, Free vert_source]"
        using assms(1-5) linking src both by (simp add: init_program_files_def)
      then show ?thesis
        using src both t1 t2 t3 t4 t5 assms(10) by (auto simp add: list_ex_iff)
    next
      case skipping: False
      have "program = 0 \<and>
          h' = h4 @ [GlDeleteShader frag_shader, GlDeleteShader vert_shader,
                     Free frag_source, Free vert_source]"
        using assms(1-5) src skipping by (auto simp add: init_program_files_def)
      then show ?thesis
        using src skipping t1 t2 t3 t4 by (auto simp add: list_ex_iff)
    qed
  qed
  have result: "program = (if vert_source \<noteq> None \<and> frag_source \<noteq> None
                    \<and> vert_created \<noteq> 0 \<and> vert_status \<noteq> 0
                    \<and> frag_created \<noteq> 0 \<and> frag_status \<noteq> 0
                    \<and> prog_created \<noteq> 0 \<and> link_status \<noteq> 0 then prog_created else 0)"
    using gating v f ps by simp
  have r1: "program \<noteq> 0 \<longleftrightarrow>
            vert_source \<noteq> None \<and> frag_source \<noteq> None
            \<and> vert_created \<noteq> 0 \<and> vert_status \<noteq> 0
            \<and> frag_created \<noteq> 0 \<and> frag_status \<noteq> 0
            \<and> prog_created \<noteq> 0 \<and> link_status \<noteq> 0"
    using result by simp
  have r2: "vert_source = None \<or> frag_source = None
            \<or> vert_created = 0 \<or> vert_status = 0 \<or> frag_created = 0 \<or> frag_status = 0
            \<or> prog_created = 0 \<or> link_status = 0 \<longrightarrow> program = 0"
    using r1 by blast
  have r3: "program \<noteq> 0 \<longrightarrow> program = prog_created"
    using result by simp
  from gating v f r1 r2 r3 show ?thesis
    by blast
qed

text \<open>
  Six runs of the entry point: a build that succeeds and returns the program object 3;
  no file opens; only the fragment file does not open; both compilations fail; only the
  fragment compilation fails; both stages compile and the link fails. Each of the five
  failures returns 0; the load failures create no shader object, the compile failures
  create no program object, and the link failure requests the link.
\<close>

theorem init_program_files_gating_witness:
  "fst (init_program_files env_ok ''a.vert'' ''a.frag'' []) = 3
   \<and> list_ex creates_shader (emitted [] (snd (init_program_files env_ok ''a.vert'' ''a.frag'' [])))
   \<and> list_ex links_program (emitted [] (snd (init_program_files env_ok ''a.vert'' ''a.frag'' [])))
   \<and> fst (init_program_files env_no_file ''a.vert'' ''a.frag'' []) = 0
   \<and> \<not> list_ex creates_shader
         (emitted [] (snd (init_program_files env_no_file ''a.vert'' ''a.frag'' [])))
   \<and> \<not> list_ex creates_program
         (emitted [] (snd (init_program_files env_no_file ''a.vert'' ''a.frag'' [])))
   \<and> fst (init_program_files env_no_frag_file ''a.vert'' ''a.frag'' []) = 0
   \<and> \<not> list_ex creates_shader
         (emitted [] (snd (init_program_files env_no_frag_file ''a.vert'' ''a.frag'' [])))
   \<and> fst (init_program_files env_compile_error ''a.vert'' ''a.frag'' []) = 0
   \<and> \<not> list_ex creates_program
         (emitted [] (snd (init_program_files env_compile_error ''a.vert'' ''a.frag'' [])))
   \<and> fst (init_program_files env_frag_error ''a.vert'' ''a.frag'' []) = 0
   \<and> \<not> list_ex creates_program
         (emitted [] (snd (init_program_files env_frag_error ''a.vert'' ''a.frag'' [])))
   \<and> fst (init_program_files env_link_error ''a.vert'' ''a.frag'' []) = 0
   \<and> list_ex links_program
         (emitted [] (snd (init_program_files env_link_error ''a.vert'' ''a.frag'' [])))"
proof -
  note run = init_program_files_gating [where vert_name = "''a.vert''"
          and frag_name = "''a.frag''" and ?h0.0 = "[]",
          OF surjective_pairing surjective_pairing surjective_pairing surjective_pairing
             surjective_pairing refl refl refl refl refl refl]
  note defs = read_shader_source_def init_shader_def init_program_shaders_def
        report_shader_status_def report_program_status_def source_buffer_def Let_def
  have a: "fst (init_program_files env_ok ''a.vert'' ''a.frag'' []) = 3
   \<and> list_ex creates_shader (emitted [] (snd (init_program_files env_ok ''a.vert'' ''a.frag'' [])))
   \<and> list_ex links_program (emitted [] (snd (init_program_files env_ok ''a.vert'' ''a.frag'' [])))"
    using run [where env = env_ok] by (simp add: defs env_ok_def)
  have b: "fst (init_program_files env_no_file ''a.vert'' ''a.frag'' []) = 0
   \<and> \<not> list_ex creates_shader
         (emitted [] (snd (init_program_files env_no_file ''a.vert'' ''a.frag'' [])))
   \<and> \<not> list_ex creates_program
         (emitted [] (snd (init_program_files env_no_file ''a.vert'' ''a.frag'' [])))"
    using run [where env = env_no_file]
    by (simp add: defs env_no_file_def env_compile_error_def env_ok_def)
  have c: "fst (init_program_files env_no_frag_file ''a.vert'' ''a.frag'' []) = 0
   \<and> \<not> list_ex creates_shader
         (emitted [] (snd (init_program_files env_no_frag_file ''a.vert'' ''a.frag'' [])))"
    using run [where env = env_no_frag_file]
    by (simp add: defs env_no_frag_file_def env_ok_def)
  have d: "fst (init_program_files env_compile_error ''a.vert'' ''a.frag'' []) = 0
   \<and> \<not> list_ex creates_program
         (emitted [] (snd (init_program_files env_compile_error ''a.vert'' ''a.frag'' [])))"
    using run [where env = env_compile_error]
    by (simp add: defs env_compile_error_def env_ok_def)
  have e: "fst (init_program_files env_frag_error ''a.vert'' ''a.frag'' []) = 0
   \<and> \<not> list_ex creates_program
         (emitted [] (snd (init_program_files env_frag_error ''a.vert'' ''a.frag'' [])))"
    using run [where env = env_frag_error]
    by (simp add: defs env_frag_error_def env_ok_def)
  have f: "fst (init_program_files env_link_error ''a.vert'' ''a.frag'' []) = 0
   \<and> list_ex links_program
         (emitted [] (snd (init_program_files env_link_error ''a.vert'' ''a.frag'' [])))"
    using run [where env = env_link_error]
    by (simp add: defs env_link_error_def env_ok_def)
  from a b c d e f show ?thesis
    by blast
qed

end
